theory Spec2Isabelle
  imports Complex_Main "HOL-Library.Sublist"
begin

section \<open>Host values\<close>

text \<open>
  The samples compute with JavaScript numbers. Finite numbers are modelled by \<open>real\<close>:
  every equation proved below is between the results of the same operations on the same
  operands, and every inequality is preserved by a monotone rounding. The one operation of
  the samples that leaves the finite numbers is the division of the two drawing-buffer
  dimensions in \<open>resize\<close>: JavaScript does not raise on a zero divisor, it yields
  \<open>Infinity\<close> or \<open>NaN\<close>.
\<close>

datatype quotient = Finite real | Infinity | NaN

definition js_div :: "nat \<Rightarrow> nat \<Rightarrow> quotient" where
  "js_div a b = (if b = 0 then (if a = 0 then NaN else Infinity) else Finite (real a / real b))"

text \<open>The browser window (\<open>window.innerWidth\<close>, \<open>window.innerHeight\<close>).\<close>

record window =
  innerWidth :: nat
  innerHeight :: nat

text \<open>
  The page: its title and the \<open>innerHTML\<close> of the elements of class \<open>Info\<close>, in document
  order. These are the only texts a sample writes.
\<close>

record document =
  title :: string
  Info :: "string list"

text \<open>An \<open>Image\<close> element fires \<open>load\<close> or \<open>error\<close> once for the source it was given.\<close>

datatype image_state = Loading | Complete | Broken

record image_element =
  src :: string
  state :: image_state

section \<open>Objects of the rendering library\<close>

record vec3 =
  vec_x :: real
  vec_y :: real
  vec_z :: real

definition Vec3 :: "real \<Rightarrow> real \<Rightarrow> real \<Rightarrow> vec3" where
  "Vec3 a b c = \<lparr>vec_x = a, vec_y = b, vec_z = c\<rparr>"

record transform =
  position :: vec3
  rotation :: vec3
  scale :: vec3

record canvas =
  width :: nat
  height :: nat

record renderer =
  dpr :: nat
  canvas :: canvas

text \<open>
  \<open>fov\<close> is the field of view given to the constructor (\<open>None\<close>: left to the library);
  \<open>aspect\<close> is the aspect ratio last passed to \<open>perspective\<close> (\<open>None\<close>: not called yet).
\<close>

record camera = transform +
  fov :: "real option"
  aspect :: "quotient option"

text \<open>Meshes are objects shared between the scene and the sample's variables: the scene
  holds references (indices into the world's \<open>objects\<close>).\<close>

record scene = transform +
  children :: "nat list"

record attribute =
  size_attr :: nat
  data :: "real list"
  instanced :: "nat option"

record geometry =
  attributes :: "(string \<times> attribute) list"
  index :: "nat list option"

record mesh = transform +
  geometry :: nat
  speed :: "real option"

datatype wrap = REPEAT

text \<open>\<open>image\<close> refers to the \<open>Image\<close> element assigned to the texture, if any.\<close>

record texture =
  wrapS :: "wrap option"
  wrapT :: "wrap option"
  image :: "nat option"

text \<open>
  Values that library code outside the source files computes, taken as parameters: the
  device-pixel ratio and drawing-buffer size of a renderer constructed without options, the
  transform of a newly constructed node, and the geometries built by
  \<open>new Sphere(gl, {widthSegments: 64})\<close> and
  \<open>new Plane(gl, {widthSegments: 10, heightSegments: 10})\<close>.
\<close>

record library =
  default_dpr :: nat
  default_canvas :: canvas
  new_Transform :: transform
  Sphere :: geometry
  Plane :: geometry

section \<open>The state of a sample\<close>

text \<open>
  What every sample has: the window and page, the renderer and camera, the scene, the
  geometry, mesh and texture objects created so far, the \<open>Image\<close> elements,
  the number of callbacks registered with \<open>requestAnimationFrame\<close> and not yet run, and
  the render requests issued so far (the scene and camera as they were at the request).
\<close>

record world =
  window :: window
  document :: document
  renderer :: renderer
  camera :: camera
  scene :: scene
  geometries :: "geometry list"
  objects :: "mesh list"
  textures :: "texture list"
  images :: "image_element list"
  raf_pending :: nat
  rendered :: "(scene \<times> camera) list"

subsection \<open>Library operations\<close>

text \<open>
  Modelled from the spec: the method \<open>setSize\<close> of the library's Renderer, which is not
  among the source files. \<open>renderer.setSize(width, height)\<close> resizes the drawing buffer to
  match the viewport. The device-pixel ratio the renderer was constructed with (the option
  \<open>dpr\<close> of two samples) is the number of buffer pixels per viewport pixel in each
  direction; the theorems hold for every ratio.
\<close>

definition setSize :: "nat \<Rightarrow> nat \<Rightarrow> renderer \<Rightarrow> renderer" where
  "setSize w h r = r\<lparr>canvas := \<lparr>width = w * dpr r, height = h * dpr r\<rparr>\<rparr>"

text \<open>
  Modelled from the spec: the constructor of the library's Renderer, which is not among
  the source files. \<open>construct-renderer(options)\<close> gives the drawing context; the ratio is
  the option \<open>dpr\<close> where the sample gives one.
\<close>

definition Renderer :: "library \<Rightarrow> nat option \<Rightarrow> renderer" where
  "Renderer lib d =
     \<lparr>dpr = (case d of None \<Rightarrow> default_dpr lib | Some k \<Rightarrow> k), canvas = default_canvas lib\<rparr>"

text \<open>
  Modelled from the spec: the constructor of the library's Camera, which is not among the
  source files. \<open>construct-camera(context, {fov})\<close> gives a camera with mutable position
  and rotation.
\<close>

definition Camera :: "library \<Rightarrow> real option \<Rightarrow> camera" where
  "Camera lib f = transform.extend (new_Transform lib) \<lparr>fov = f, aspect = None\<rparr>"

text \<open>
  Modelled from the spec: the method \<open>perspective\<close> of the library's Camera, which is not
  among the source files. \<open>perspective({aspect})\<close> recomputes the camera's projection for
  the aspect ratio it is given.
\<close>

definition perspective :: "quotient \<Rightarrow> camera \<Rightarrow> camera" where
  "perspective a c = c\<lparr>aspect := Some a\<rparr>"

text \<open>
  Modelled from the spec: the method \<open>render\<close> of the library's Renderer, which is not
  among the source files. \<open>renderer.render({scene, camera})\<close> draws one frame of the scene
  from the camera; its effect is pixels drawn to the canvas. The state keeps the requests.
\<close>

definition render :: "'a world_scheme \<Rightarrow> 'a world_scheme" where
  "render s = s\<lparr>rendered := rendered s @ [(scene s, camera s)]\<rparr>"

text \<open>
  Modelled from the spec: the constructor of the library's Geometry, which is not among
  the source files. \<open>construct-geometry(context, attributeMap)\<close> gives a geometry with the
  attributes and the index list it is given.
\<close>

definition Geometry :: "geometry \<Rightarrow> 'a world_scheme \<Rightarrow> 'a world_scheme" where
  "Geometry g s = s\<lparr>geometries := geometries s @ [g]\<rparr>"

text \<open>
  Modelled from the spec: the constructor of the library's Texture, which is not among the
  source files. A new texture has no image.
\<close>

definition Texture :: "wrap option \<Rightarrow> wrap option \<Rightarrow> 'a world_scheme \<Rightarrow> 'a world_scheme" where
  "Texture ws wt s = s\<lparr>textures := textures s @ [\<lparr>wrapS = ws, wrapT = wt, image = None\<rparr>]\<rparr>"

text \<open>
  Modelled from the spec: the constructor of the library's Mesh, which is not among the
  source files. \<open>construct-mesh(context, {geometry, program})\<close> gives a mesh, a transform
  that refers to one geometry (and to the one program of the sample).
\<close>

definition Mesh :: "library \<Rightarrow> nat \<Rightarrow> 'a world_scheme \<Rightarrow> 'a world_scheme" where
  "Mesh lib g s =
     s\<lparr>objects := objects s @ [transform.extend (new_Transform lib) \<lparr>geometry = g, speed = None\<rparr>]\<rparr>"

text \<open>
  Modelled from the spec: the constructor of the library's Transform, which is not among
  the source files. The scene root is a transform without children.
\<close>

definition Transform :: "library \<Rightarrow> scene" where
  "Transform lib = transform.extend (new_Transform lib) \<lparr>children = []\<rparr>"

text \<open>
  Modelled from the spec: the method \<open>setParent\<close> of the library's Mesh, which is not
  among the source files. It attaches the mesh to the parent transform, here the scene root.
\<close>

definition setParent :: "nat \<Rightarrow> 'a world_scheme \<Rightarrow> 'a world_scheme" where
  "setParent m s = s\<lparr>scene := (scene s)\<lparr>children := children (scene s) @ [m]\<rparr>\<rparr>"

subsection \<open>Operations of the language and the browser\<close>

text \<open>An assignment through a reference to a mesh.\<close>

definition modify :: "nat \<Rightarrow> (mesh \<Rightarrow> mesh) \<Rightarrow> 'a world_scheme \<Rightarrow> 'a world_scheme" where
  "modify m f s = s\<lparr>objects := (objects s)[m := f (objects s ! m)]\<rparr>"

text \<open>The browser's \<open>requestAnimationFrame\<close>: one more callback to run at the next frame.
  The samples only ever register their \<open>update\<close>.\<close>

definition requestAnimationFrame :: "'a world_scheme \<Rightarrow> 'a world_scheme" where
  "requestAnimationFrame s = s\<lparr>raf_pending := raf_pending s + 1\<rparr>"

text \<open>\<open>const img = new Image(); img.onload = ...; img.src = url\<close>: one more element, loading.\<close>

definition Image :: "string \<Rightarrow> 'a world_scheme \<Rightarrow> 'a world_scheme" where
  "Image url s = s\<lparr>images := images s @ [\<lparr>src = url, state = Loading\<rparr>]\<rparr>"

text \<open>
  The load handlers all have the form \<open>img.onload = () => (texture.image = img)\<close>, and in
  every sample the k-th image created belongs to the k-th texture created.
\<close>

definition img_onload :: "nat \<Rightarrow> 'a world_scheme \<Rightarrow> 'a world_scheme" where
  "img_onload k s = s\<lparr>textures := (textures s)[k := (textures s ! k)\<lparr>image := Some k\<rparr>]\<rparr>"

text \<open>
  The last two statements of a sample's script write the info text and the title.
  \<open>document.getElementsByClassName("Info")[0]\<close> is undefined on a page without such an
  element: the assignment then throws, the script ends there and the title stays.
\<close>

definition set_page_text :: "string \<Rightarrow> string \<Rightarrow> 'a world_scheme \<Rightarrow> 'a world_scheme" where
  "set_page_text info_text title_text s =
     (case Info (document s) of
        [] \<Rightarrow> s
      | e # es \<Rightarrow> s\<lparr>document := \<lparr>title = title_text, Info = info_text # es\<rparr>\<rparr>)"

text \<open>The bullet of the titles, U+2022, in UTF-8.\<close>

definition bullet :: string where
  "bullet = [CHR 0xE2, CHR 0x80, CHR 0xA2]"

section \<open>The resize handler (the same in the four samples)\<close>

definition resize :: "'a world_scheme \<Rightarrow> 'a world_scheme" where
  "resize s =
     (let s1 = s\<lparr>renderer := setSize (innerWidth (window s)) (innerHeight (window s)) (renderer s)\<rparr>
      in s1\<lparr>camera := perspective (js_div (width (canvas (renderer s1))) (height (canvas (renderer s1))))
                          (camera s1)\<rparr>)"

text \<open>The browser changes the size of the window and dispatches \<open>resize\<close> to the listener.\<close>

definition window_resize :: "nat \<Rightarrow> nat \<Rightarrow> 'a world_scheme \<Rightarrow> 'a world_scheme" where
  "window_resize w h s = resize (s\<lparr>window := \<lparr>innerWidth = w, innerHeight = h\<rparr>\<rparr>)"

section \<open>Events\<close>

text \<open>
  What the browser delivers to a page: an animation frame with its timestamp, a change of
  the window's size, the end of an image load (success or failure), a mouse move with the
  event's \<open>x\<close> and \<open>y\<close>, the end of the model fetch (the parsed JSON together with the
  values \<open>Math.random()\<close> returns afterwards, or a rejection), and input to the orbit
  controls, which the library handles with listeners of its own.
\<close>

record model_json =
  position_data :: "real list"
  uv_data :: "real list"
  normal_data :: "real list"

datatype 'c event =
    AnimationFrame real
  | Resize nat nat
  | ImageLoad nat
  | ImageError nat
  | MouseMove real real
  | FetchResolved model_json "nat \<Rightarrow> real"
  | FetchRejected
  | ControlsInput 'c

text \<open>At a frame the browser runs the callbacks registered since the last one; what they
  register is run at the next frame.\<close>

definition animation_frame ::
  "(real \<Rightarrow> 'a world_scheme \<Rightarrow> 'a world_scheme) \<Rightarrow> real \<Rightarrow> 'a world_scheme \<Rightarrow> 'a world_scheme" where
  "animation_frame update t s = (update t ^^ raf_pending s) (s\<lparr>raf_pending := 0\<rparr>)"

text \<open>An image that is loading ends once, with \<open>load\<close> or with \<open>error\<close>. The samples set
  \<open>onload\<close> and nothing else on their images.\<close>

definition image_load :: "nat \<Rightarrow> 'a world_scheme \<Rightarrow> 'a world_scheme" where
  "image_load k s =
     (if k < length (images s) \<and> state (images s ! k) = Loading
      then img_onload k (s\<lparr>images := (images s)[k := (images s ! k)\<lparr>state := Complete\<rparr>]\<rparr>)
      else s)"

definition image_error :: "nat \<Rightarrow> 'a world_scheme \<Rightarrow> 'a world_scheme" where
  "image_error k s =
     (if k < length (images s) \<and> state (images s ! k) = Loading
      then s\<lparr>images := (images s)[k := (images s ! k)\<lparr>state := Broken\<rparr>]\<rparr>
      else s)"

definition run :: "('e \<Rightarrow> 's \<Rightarrow> 's) \<Rightarrow> 'e list \<Rightarrow> 's \<Rightarrow> 's" where
  "run step es s = foldl (\<lambda>s e. step e s) s es"

section \<open>Sample: indexed vs non-indexed\<close>

record indexed = world +
  uTime :: real

definition indexedGeometry :: geometry where
  "indexedGeometry =
     \<lparr>attributes =
        [(''position'', \<lparr>size_attr = 3,
            data = [-0.5, 0.5, 0, -0.5, -0.5, 0, 0.5, 0.5, 0, 0.5, -0.5, 0], instanced = None\<rparr>),
         (''uv'', \<lparr>size_attr = 2, data = [0, 1, 1, 1, 0, 0, 1, 0], instanced = None\<rparr>)],
      index = Some [0, 1, 2, 1, 3, 2]\<rparr>"

definition nonIndexedGeometry :: geometry where
  "nonIndexedGeometry =
     \<lparr>attributes =
        [(''position'', \<lparr>size_attr = 3,
            data = [-0.5, 0.5, 0, -0.5, -0.5, 0, 0.5, 0.5, 0, -0.5, -0.5, 0, 0.5, -0.5, 0, 0.5, 0.5, 0],
            instanced = None\<rparr>),
         (''uv'', \<lparr>size_attr = 2, data = [0, 1, 1, 1, 0, 0, 1, 1, 1, 0, 0, 0], instanced = None\<rparr>)],
      index = None\<rparr>"

definition update_indexed :: "real \<Rightarrow> indexed \<Rightarrow> indexed" where
  "update_indexed t s =
     (let s = requestAnimationFrame s;
          s = s\<lparr>indexed.uTime := t * 0.001\<rparr>
      in render s)"

definition setup_indexed :: "library \<Rightarrow> document \<Rightarrow> window \<Rightarrow> indexed" where
  "setup_indexed lib page win =
     (let cam = Camera lib (Some 15);
          s = \<lparr>window = win, document = page, renderer = Renderer lib None,
               camera = cam\<lparr>position := (position cam)\<lparr>vec_z := 15\<rparr>\<rparr>,
               scene = Transform lib, geometries = [], objects = [], textures = [], images = [],
               raf_pending = 0, rendered = [], indexed.uTime = 0\<rparr>;
          s = resize s;
          s = Geometry indexedGeometry s;
          s = Geometry nonIndexedGeometry s;
          s = setParent 0 (Mesh lib 0 s);
          s = modify 0 (\<lambda>m. m\<lparr>position := (position m)\<lparr>vec_y := 0.9\<rparr>\<rparr>) s;
          s = setParent 1 (Mesh lib 1 s);
          s = modify 1 (\<lambda>m. m\<lparr>position := (position m)\<lparr>vec_y := - 0.9\<rparr>\<rparr>) s;
          s = requestAnimationFrame s
      in set_page_text ''Indexed vs Non-Indexed'' (''OGL '' @ bullet @ '' Indexed vs Non-Indexed'') s)"

fun step_indexed :: "'c event \<Rightarrow> indexed \<Rightarrow> indexed" where
  "step_indexed (AnimationFrame t) s = animation_frame update_indexed t s"
| "step_indexed (Resize w h) s = window_resize w h s"
| "step_indexed _ s = s"

section \<open>Sample: instancing\<close>

text \<open>
  \<open>uTime\<close> and \<open>tMap\<close> are the uniforms of the program. \<open>mesh\<close> is the variable
  declared by \<open>let mesh\<close>: undefined until the model is there. \<open>fetch_pending\<close> says
  that \<open>loadModel\<close> is suspended at its \<open>await\<close>.
\<close>

record instancing = world +
  uTime :: real
  tMap :: nat
  mesh :: "nat option"
  fetch_pending :: bool

text \<open>\<open>typedArray.set(source, offset)\<close> throws a RangeError when the source does not fit.\<close>

definition set_array :: "real list \<Rightarrow> nat \<Rightarrow> real list \<Rightarrow> real list option" where
  "set_array xs off arr =
     (if off + length xs \<le> length arr
      then Some (take off arr @ xs @ drop (off + length xs) arr) else None)"

text \<open>The loop \<open>for (let i = 0; i < num; i++)\<close> of \<open>loadModel\<close>; \<open>rand k\<close> is what the k-th
  call of \<open>Math.random()\<close> returns.\<close>

function fill ::
  "(nat \<Rightarrow> real) \<Rightarrow> nat \<Rightarrow> nat \<Rightarrow> real list \<times> real list \<Rightarrow> (real list \<times> real list) option" where
  "fill rand i num (offset, random) =
     (if i < num
      then (case set_array [rand (6 * i) * 2 - 1, rand (6 * i + 1) * 2 - 1, rand (6 * i + 2) * 2 - 1]
                    (i * 3) offset of
              None \<Rightarrow> None
            | Some offset' \<Rightarrow>
               (case set_array [rand (6 * i + 3), rand (6 * i + 4), rand (6 * i + 5)] (i * 3) random of
                  None \<Rightarrow> None
                | Some random' \<Rightarrow> fill rand (i + 1) num (offset', random')))
      else Some (offset, random))"
  by pat_completeness auto
termination
  by (relation "measure (\<lambda>(rand, i, num, arrays). num - i)") auto

text \<open>\<open>loadModel\<close> up to its \<open>await\<close>: the fetch is started.\<close>

definition loadModel :: "instancing \<Rightarrow> instancing" where
  "loadModel s = s\<lparr>fetch_pending := True\<rparr>"

text \<open>
  \<open>loadModel\<close> after its \<open>await\<close>, with the parsed JSON. An exception in an \<open>async\<close>
  function rejects its promise, which nobody awaits: the state stays as it is.
\<close>

definition loadModel_continue :: "library \<Rightarrow> model_json \<Rightarrow> (nat \<Rightarrow> real) \<Rightarrow> instancing \<Rightarrow> instancing" where
  "loadModel_continue lib d rand s =
     (let num = 20 in
      case fill rand 0 num (replicate (num * 3) 0, replicate (num * 3) 0) of
        None \<Rightarrow> s
      | Some (offset, random) \<Rightarrow>
         (let g = length (geometries s);
              s = Geometry
                    \<lparr>attributes =
                       [(''position'', \<lparr>size_attr = 3, data = position_data d, instanced = None\<rparr>),
                        (''uv'', \<lparr>size_attr = 2, data = uv_data d, instanced = None\<rparr>),
                        (''normal'', \<lparr>size_attr = 3, data = normal_data d, instanced = None\<rparr>),
                        (''offset'', \<lparr>size_attr = 3, data = offset, instanced = Some 1\<rparr>),
                        (''random'', \<lparr>size_attr = 3, data = random, instanced = Some 1\<rparr>)],
                      index = None\<rparr> s;
              m = length (objects s);
              s = Mesh lib g s;
              s = s\<lparr>mesh := Some m\<rparr>
          in setParent m s))"

definition update_instancing :: "real \<Rightarrow> instancing \<Rightarrow> instancing" where
  "update_instancing t s =
     (let s = requestAnimationFrame s;
          s = (case mesh s of
                 None \<Rightarrow> s
               | Some m \<Rightarrow> modify m (\<lambda>m. m\<lparr>rotation := (rotation m)\<lparr>vec_y := vec_y (rotation m) - 0.005\<rparr>\<rparr>) s);
          s = s\<lparr>instancing.uTime := t * 0.001\<rparr>
      in render s)"

definition setup_instancing :: "library \<Rightarrow> document \<Rightarrow> window \<Rightarrow> instancing" where
  "setup_instancing lib page win =
     (let cam = Camera lib (Some 15);
          s = \<lparr>window = win, document = page, renderer = Renderer lib (Some 2),
               camera = cam\<lparr>position := (position cam)\<lparr>vec_z := 15\<rparr>\<rparr>,
               scene = Transform lib, geometries = [], objects = [], textures = [], images = [],
               raf_pending = 0, rendered = [], instancing.uTime = 0, tMap = 0, mesh = None,
               fetch_pending = False\<rparr>;
          s = resize s;
          s = Texture None None s;
          s = Image ''../../assets/acorn.jpg'' s;
          s = loadModel s;
          s = requestAnimationFrame s
      in set_page_text ''Instancing. Model by Google Poly'' (''OGL '' @ bullet @ '' Instancing'') s)"

text \<open>The fetch settles once.\<close>

fun step_instancing :: "library \<Rightarrow> 'c event \<Rightarrow> instancing \<Rightarrow> instancing" where
  "step_instancing lib (AnimationFrame t) s = animation_frame update_instancing t s"
| "step_instancing lib (Resize w h) s = window_resize w h s"
| "step_instancing lib (ImageLoad k) s = image_load k s"
| "step_instancing lib (ImageError k) s = image_error k s"
| "step_instancing lib (FetchResolved d rand) s =
     (if fetch_pending s then loadModel_continue lib d rand (s\<lparr>fetch_pending := False\<rparr>) else s)"
| "step_instancing lib FetchRejected s =
     (if fetch_pending s then s\<lparr>fetch_pending := False\<rparr> else s)"
| "step_instancing lib _ s = s"

section \<open>Sample: sort transparency\<close>

text \<open>\<open>meshes\<close> is the array of the 50 meshes; \<open>tMap\<close> and \<open>uColor\<close> are the uniforms.\<close>

record sort_transparency = world +
  tMap :: nat
  uColor :: string
  meshes :: "nat list"

text \<open>
  One round of the loop \<open>for (let i = 0; i < 50; i++)\<close>; \<open>rand k\<close> is what the k-th call
  of \<open>Math.random()\<close> returns, and a round makes seven calls. \<open>scale.set\<close> with one
  argument sets the three components to it.
\<close>

definition leaf :: "library \<Rightarrow> (nat \<Rightarrow> real) \<Rightarrow> nat \<Rightarrow> sort_transparency \<Rightarrow> sort_transparency" where
  "leaf lib rand i s =
     (let m = length (objects s);
          s = Mesh lib 0 s;
          s = modify m (\<lambda>m. m\<lparr>position :=
                 Vec3 ((rand (7 * i) - 0.5) * 3) ((rand (7 * i + 1) - 0.5) * 6) ((rand (7 * i + 2) - 0.5) * 3)\<rparr>) s;
          s = modify m (\<lambda>m. m\<lparr>rotation :=
                 Vec3 0 ((rand (7 * i + 3) - 0.5) * 6.28) ((rand (7 * i + 4) - 0.5) * 6.28)\<rparr>) s;
          s = modify m (\<lambda>m. m\<lparr>scale :=
                 Vec3 (rand (7 * i + 5) * 0.5 + 0.2) (rand (7 * i + 5) * 0.5 + 0.2) (rand (7 * i + 5) * 0.5 + 0.2)\<rparr>) s;
          s = modify m (\<lambda>m. m\<lparr>speed := Some (rand (7 * i + 6) * 1.5 + 0.2)\<rparr>) s;
          s = setParent m s
      in s\<lparr>meshes := meshes s @ [m]\<rparr>)"

text \<open>The body of \<open>meshes.forEach\<close> in \<open>update\<close>.\<close>

definition spin :: "mesh \<Rightarrow> mesh" where
  "spin m =
     (let m = m\<lparr>rotation := (rotation m)\<lparr>vec_y := vec_y (rotation m) + 0.05\<rparr>\<rparr>;
          m = m\<lparr>rotation := (rotation m)\<lparr>vec_z := vec_z (rotation m) + 0.05\<rparr>\<rparr>
      in if vec_y (position m) < - 3
         then m\<lparr>position := (position m)\<lparr>vec_y := vec_y (position m) + 6\<rparr>\<rparr>
         else m)"

definition update_sort_transparency :: "real \<Rightarrow> sort_transparency \<Rightarrow> sort_transparency" where
  "update_sort_transparency t s =
     (let s = requestAnimationFrame s;
          s = foldl (\<lambda>s m. modify m spin s) s (meshes s);
          s = s\<lparr>scene := (scene s)\<lparr>rotation :=
                 (rotation (scene s))\<lparr>vec_y := vec_y (rotation (scene s)) + 0.015\<rparr>\<rparr>\<rparr>
      in render s)"

definition setup_sort_transparency ::
  "library \<Rightarrow> document \<Rightarrow> window \<Rightarrow> (nat \<Rightarrow> real) \<Rightarrow> sort_transparency" where
  "setup_sort_transparency lib page win rand =
     (let cam = Camera lib (Some 35);
          cam = cam\<lparr>position := Vec3 0 0 7\<rparr>;
          cam = cam\<lparr>rotation := (rotation cam)\<lparr>vec_z := - 0.3\<rparr>\<rparr>;
          s = \<lparr>window = win, document = page, renderer = Renderer lib (Some 2), camera = cam,
               scene = Transform lib, geometries = [], objects = [], textures = [], images = [],
               raf_pending = 0, rendered = [], tMap = 0, uColor = ''#ffc219'', meshes = []\<rparr>;
          s = resize s;
          s = Geometry (Plane lib) s;
          s = Texture None None s;
          s = Image ''../../assets/leaf.jpg'' s;
          s = foldl (\<lambda>s i. leaf lib rand i s) s [0..<50];
          s = requestAnimationFrame s
      in set_page_text ''Sort Transparency'' (''OGL '' @ bullet @ '' Sort Transparency'') s)"

fun step_sort_transparency :: "'c event \<Rightarrow> sort_transparency \<Rightarrow> sort_transparency" where
  "step_sort_transparency (AnimationFrame t) s = animation_frame update_sort_transparency t s"
| "step_sort_transparency (Resize w h) s = window_resize w h s"
| "step_sort_transparency (ImageLoad k) s = image_load k s"
| "step_sort_transparency (ImageError k) s = image_error k s"
| "step_sort_transparency _ s = s"

section \<open>Sample: point lighting\<close>

text \<open>
  The orbit controls are library code outside the source files, with a state of their own:
  the constructor and \<open>controls.update()\<close>, which moves the camera, are parameters.
\<close>

record 'c orbit =
  new_Orbit :: "camera \<Rightarrow> vec3 \<Rightarrow> 'c"
  update_controls :: "'c \<Rightarrow> camera \<Rightarrow> 'c \<times> camera"

text \<open>The mesh is the first object created; the uniforms of the program follow.\<close>

record 'c point_lighting = world +
  controls :: 'c
  u_dt :: real
  u_lightWorldPosition :: "real list"
  u_shininess :: real
  colMap :: nat
  specMap :: nat
  cloudMap :: nat

definition update_point_lighting :: "'c orbit \<Rightarrow> real \<Rightarrow> 'c point_lighting \<Rightarrow> 'c point_lighting" where
  "update_point_lighting orb dt s =
     (let s = requestAnimationFrame s;
          s = modify 0 (\<lambda>m. m\<lparr>rotation := (rotation m)\<lparr>vec_y := vec_y (rotation m) + 0.005\<rparr>\<rparr>) s;
          s = s\<lparr>u_dt := - dt * 0.00002\<rparr>;
          (c, cam) = update_controls orb (controls s) (camera s);
          s = s\<lparr>controls := c, camera := cam\<rparr>
      in render s)"

text \<open>The listener of \<open>mousemove\<close> on the document.\<close>

definition mousemove :: "real \<Rightarrow> real \<Rightarrow> 'c point_lighting \<Rightarrow> 'c point_lighting" where
  "mousemove ex ey s =
     (let cords_x = ex - real (innerWidth (window s)) / 2;
          cords_y = ey - real (innerHeight (window s)) / 2
      in s\<lparr>u_lightWorldPosition := [cords_x, - cords_y, 40]\<rparr>)"

definition setup_point_lighting :: "library \<Rightarrow> 'c orbit \<Rightarrow> document \<Rightarrow> window \<Rightarrow> 'c point_lighting" where
  "setup_point_lighting lib orb page win =
     (let cam = Camera lib None;
          cam = cam\<lparr>position := Vec3 0 0 2\<rparr>;
          s = \<lparr>window = win, document = page, renderer = Renderer lib None, camera = cam,
               scene = Transform lib, geometries = [], objects = [], textures = [], images = [],
               raf_pending = 0, rendered = [], controls = new_Orbit orb cam (Vec3 0 0 0),
               u_dt = 0, u_lightWorldPosition = [20, 30, 60], u_shininess = 1.5,
               colMap = 0, specMap = 1, cloudMap = 2\<rparr>;
          s = resize s;
          s = Geometry (Sphere lib) s;
          s = Texture None None s;
          s = Image ''../../assets/earth.jpg'' s;
          s = Texture None None s;
          s = Image ''../../assets/earth_specular.jpg'' s;
          s = Texture (Some REPEAT) (Some REPEAT) s;
          s = Image ''../../assets/earth_cloud.jpg'' s;
          s = setParent 0 (Mesh lib 0 s)
      in requestAnimationFrame s)"

fun step_point_lighting :: "'c orbit \<Rightarrow> 'c event \<Rightarrow> 'c point_lighting \<Rightarrow> 'c point_lighting" where
  "step_point_lighting orb (AnimationFrame t) s = animation_frame (update_point_lighting orb) t s"
| "step_point_lighting orb (Resize w h) s = window_resize w h s"
| "step_point_lighting orb (ImageLoad k) s = image_load k s"
| "step_point_lighting orb (ImageError k) s = image_error k s"
| "step_point_lighting orb (MouseMove ex ey) s = mousemove ex ey s"
| "step_point_lighting orb (ControlsInput c) s = s\<lparr>controls := c\<rparr>"
| "step_point_lighting orb _ s = s"

section \<open>Notions the properties are stated with\<close>

text \<open>
  How a draw reads a geometry: vertex \<open>i\<close> of an attribute is the \<open>i\<close>-th group of
  \<open>size\<close> numbers of its data. With an index list the vertices are taken in the order of
  the list, without one in the order of the data.
\<close>

definition vertex :: "attribute \<Rightarrow> nat \<Rightarrow> real list" where
  "vertex a i = take (size_attr a) (drop (i * size_attr a) (data a))"

definition vertex_stream :: "geometry \<Rightarrow> string \<Rightarrow> real list list" where
  "vertex_stream g name =
     (case map_of (attributes g) name of
        None \<Rightarrow> []
      | Some a \<Rightarrow>
         (case index g of
            None \<Rightarrow> map (vertex a) [0..<length (data a) div size_attr a]
          | Some ix \<Rightarrow> map (vertex a) ix))"

text \<open>
  The animation state of a sample: the mesh objects (position, rotation, scale, speed),
  the scene node, the values of the program's uniforms, and the variables that say which
  objects the frame callback moves.
\<close>

definition animation_point_lighting ::
  "'c point_lighting \<Rightarrow> mesh list \<times> scene \<times> real \<times> real list \<times> real \<times> nat \<times> nat \<times> nat" where
  "animation_point_lighting s =
     (objects s, scene s, u_dt s, u_lightWorldPosition s, u_shininess s, colMap s, specMap s, cloudMap s)"

definition animation_indexed :: "indexed \<Rightarrow> mesh list \<times> scene \<times> real" where
  "animation_indexed s = (objects s, scene s, indexed.uTime s)"

definition animation_sort_transparency ::
  "sort_transparency \<Rightarrow> mesh list \<times> scene \<times> nat list \<times> nat \<times> string" where
  "animation_sort_transparency s = (objects s, scene s, meshes s, tMap s, uColor s)"

definition animation_instancing ::
  "instancing \<Rightarrow> mesh list \<times> scene \<times> nat option \<times> real \<times> nat" where
  "animation_instancing s = (objects s, scene s, mesh s, instancing.uTime s, instancing.tMap s)"

text \<open>No mesh of the list is below the line where the frame callback of the
  sort-transparency sample moves a mesh up.\<close>

definition above :: "mesh list \<Rightarrow> bool" where
  "above os = list_all (\<lambda>m. - 3 \<le> vec_y (position m)) os"

text \<open>The k-th image has failed and its texture has no image.\<close>

definition image_lost :: "nat \<Rightarrow> 'a world_scheme \<Rightarrow> bool" where
  "image_lost k s \<longleftrightarrow>
     k < length (images s) \<and> state (images s ! k) = Broken \<and>
     k < length (textures s) \<and> image (textures s ! k) = None"

text \<open>The page shows what it showed, and one frame callback is pending.\<close>

definition page_and_loop :: "document \<Rightarrow> 'a world_scheme \<Rightarrow> bool" where
  "page_and_loop d s \<longleftrightarrow> document s = d \<and> raf_pending s = 1"

text \<open>The fetch has ended without a mesh, and objects and scene are those of \<open>s0\<close>.\<close>

definition model_lost :: "instancing \<Rightarrow> instancing \<Rightarrow> bool" where
  "model_lost s0 s \<longleftrightarrow>
     \<not> fetch_pending s \<and> mesh s = None \<and> objects s = objects s0 \<and> scene s = scene s0"

text \<open>The events that are animation frames.\<close>

fun is_frame :: "'c event \<Rightarrow> bool" where
  "is_frame (AnimationFrame t) = True"
| "is_frame _ = False"

text \<open>A concrete environment, for instances of the theorems.\<close>

definition example_library :: library where
  "example_library =
     \<lparr>default_dpr = 1, default_canvas = \<lparr>width = 300, height = 150\<rparr>,
      new_Transform = \<lparr>position = Vec3 0 0 0, rotation = Vec3 0 0 0, scale = Vec3 1 1 1\<rparr>,
      Sphere = \<lparr>attributes = [], index = None\<rparr>,
      Plane = \<lparr>attributes = [], index = None\<rparr>\<rparr>"

definition example_orbit :: "unit orbit" where
  "example_orbit = \<lparr>new_Orbit = (\<lambda>cam target. ()), update_controls = (\<lambda>c cam. (c, cam))\<rparr>"

definition example_page :: document where
  "example_page = \<lparr>title = ''OGL'', Info = [''Loading'']\<rparr>"

definition example_window :: window where
  "example_window = \<lparr>innerWidth = 1280, innerHeight = 720\<rparr>"

definition example_model :: model_json where
  "example_model = \<lparr>position_data = [0, 0, 0, 1, 0, 0, 0, 1, 0], uv_data = [0, 0, 1, 0, 0, 1],
     normal_data = [0, 0, 1, 0, 0, 1, 0, 0, 1]\<rparr>"

section \<open>Runs and render requests\<close>

lemmas host_defs = render_def requestAnimationFrame_def modify_def setParent_def Mesh_def
  Geometry_def Texture_def Image_def img_onload_def

lemma foldl_modify:
  "foldl (\<lambda>s m. modify m f s) s ms = s\<lparr>objects := foldl (\<lambda>os m. os[m := f (os ! m)]) (objects s) ms\<rparr>"
  by (induction ms arbitrary: s) (simp_all add: modify_def)

lemma run_Nil: "run step [] s = s"
  by (simp add: run_def)

lemma run_snoc: "run step (es @ [e]) s = step e (run step es s)"
  by (simp add: run_def)

lemma run_invariant:
  assumes "P s" and "\<And>e s. P s \<Longrightarrow> P (step e s)"
  shows "P (run step es s)"
  by (induction es rule: rev_induct) (simp_all add: run_Nil run_snoc assms)

lemma rendered_update_indexed:
  "rendered (update_indexed t s) = rendered s @ [(scene (update_indexed t s), camera (update_indexed t s))]"
  by (simp add: update_indexed_def host_defs Let_def)

lemma rendered_update_instancing:
  "rendered (update_instancing t s) =
     rendered s @ [(scene (update_instancing t s), camera (update_instancing t s))]"
  by (simp add: update_instancing_def host_defs Let_def split: option.split)

lemma rendered_update_sort_transparency:
  "rendered (update_sort_transparency t s) =
     rendered s @ [(scene (update_sort_transparency t s), camera (update_sort_transparency t s))]"
  by (simp add: update_sort_transparency_def foldl_modify render_def requestAnimationFrame_def Let_def)

lemma rendered_update_point_lighting:
  "rendered (update_point_lighting orb t s) =
     rendered s @ [(scene (update_point_lighting orb t s), camera (update_point_lighting orb t s))]"
  by (simp add: update_point_lighting_def host_defs Let_def split: prod.split)

lemma length_rendered_run:
  assumes "\<And>t s. length (rendered (update t s)) = Suc (length (rendered s))"
  shows "length (rendered (run update ts s)) = length (rendered s) + length ts"
  by (induction ts rule: rev_induct) (simp_all add: run_Nil run_snoc assms)

section \<open>The frame loop\<close>

lemma raf_update_indexed: "raf_pending (update_indexed t s) = raf_pending s + 1"
  by (simp add: update_indexed_def host_defs Let_def)

lemma raf_update_instancing: "raf_pending (update_instancing t s) = raf_pending s + 1"
  by (simp add: update_instancing_def host_defs Let_def split: option.split)

lemma raf_update_sort_transparency: "raf_pending (update_sort_transparency t s) = raf_pending s + 1"
  by (simp add: update_sort_transparency_def foldl_modify render_def requestAnimationFrame_def Let_def)

lemma raf_update_point_lighting: "raf_pending (update_point_lighting orb t s) = raf_pending s + 1"
  by (simp add: update_point_lighting_def host_defs Let_def split: prod.split)

lemma animation_frame_one:
  "raf_pending s = 1 \<Longrightarrow> animation_frame update t s = update t (s\<lparr>raf_pending := 0\<rparr>)"
  by (simp add: animation_frame_def)

lemma raf_window_resize: "raf_pending (window_resize w h s) = raf_pending s"
  by (simp add: window_resize_def resize_def Let_def)

lemma raf_image_load: "raf_pending (image_load k s) = raf_pending s"
  by (simp add: image_load_def img_onload_def)

lemma raf_image_error: "raf_pending (image_error k s) = raf_pending s"
  by (simp add: image_error_def)

lemma raf_loadModel_continue: "raf_pending (loadModel_continue lib d rand s) = raf_pending s"
  by (simp add: loadModel_continue_def host_defs Let_def split: option.split prod.split)

lemma raf_step_indexed: "raf_pending s = 1 \<Longrightarrow> raf_pending (step_indexed e s) = 1"
  by (cases e) (simp_all add: animation_frame_one raf_update_indexed raf_window_resize)

lemma raf_step_instancing: "raf_pending s = 1 \<Longrightarrow> raf_pending (step_instancing lib e s) = 1"
  by (cases e)
    (simp_all add: animation_frame_one raf_update_instancing raf_window_resize raf_image_load
      raf_image_error raf_loadModel_continue)

lemma raf_step_sort_transparency: "raf_pending s = 1 \<Longrightarrow> raf_pending (step_sort_transparency e s) = 1"
  by (cases e)
    (simp_all add: animation_frame_one raf_update_sort_transparency raf_window_resize raf_image_load
      raf_image_error)

lemma raf_step_point_lighting: "raf_pending s = 1 \<Longrightarrow> raf_pending (step_point_lighting orb e s) = 1"
  by (cases e)
    (simp_all add: animation_frame_one raf_update_point_lighting raf_window_resize raf_image_load
      raf_image_error mousemove_def Let_def)

lemma raf_set_page_text: "raf_pending (set_page_text a b s) = raf_pending s"
  by (simp add: set_page_text_def split: list.split)

lemma raf_leaf: "raf_pending (leaf lib rand i s) = raf_pending s"
  by (simp add: leaf_def host_defs Let_def)

lemma raf_leaves: "raf_pending (foldl (\<lambda>s i. leaf lib rand i s) s is) = raf_pending s"
  by (induction "is" arbitrary: s) (simp_all add: raf_leaf)

lemma raf_setup_indexed: "raf_pending (setup_indexed lib page win) = 1"
  by (simp add: setup_indexed_def raf_set_page_text Let_def host_defs resize_def)

lemma raf_setup_instancing: "raf_pending (setup_instancing lib page win) = 1"
  by (simp add: setup_instancing_def raf_set_page_text Let_def host_defs resize_def loadModel_def)

lemma raf_setup_sort_transparency: "raf_pending (setup_sort_transparency lib page win rand) = 1"
  by (simp add: setup_sort_transparency_def raf_set_page_text Let_def raf_leaves
      requestAnimationFrame_def Geometry_def Texture_def Image_def resize_def)

lemma raf_setup_point_lighting: "raf_pending (setup_point_lighting lib orb page win) = 1"
  by (simp add: setup_point_lighting_def Let_def host_defs resize_def)

text \<open>
  C8. In each sample an invocation of the frame callback registers exactly one callback
  for the next frame. From the end of the setup on, whatever events the browser delivers
  (frames, resizes, loads, failures, input), exactly one frame callback is pending after
  each of them, so that every animation frame finds the callback and runs it once: the
  loop does not end by itself.
\<close>

theorem frame_loop_keeps_one_callback_pending:
  "raf_pending (update_point_lighting orb t s1) = raf_pending s1 + 1
   \<and> raf_pending (update_indexed t s2) = raf_pending s2 + 1
   \<and> raf_pending (update_sort_transparency t s3) = raf_pending s3 + 1
   \<and> raf_pending (update_instancing t s4) = raf_pending s4 + 1
   \<and> raf_pending (run (step_point_lighting orb) es1 (setup_point_lighting lib orb page win)) = 1
   \<and> raf_pending (run step_indexed es2 (setup_indexed lib page win)) = 1
   \<and> raf_pending (run step_sort_transparency es3 (setup_sort_transparency lib page win rand)) = 1
   \<and> raf_pending (run (step_instancing lib) es4 (setup_instancing lib page win)) = 1
   \<and> step_point_lighting orb (AnimationFrame t)
         (run (step_point_lighting orb) es1 (setup_point_lighting lib orb page win)) =
       update_point_lighting orb t
         ((run (step_point_lighting orb) es1 (setup_point_lighting lib orb page win))\<lparr>raf_pending := 0\<rparr>)
   \<and> step_indexed (AnimationFrame t) (run step_indexed es2 (setup_indexed lib page win)) =
       update_indexed t ((run step_indexed es2 (setup_indexed lib page win))\<lparr>raf_pending := 0\<rparr>)
   \<and> step_sort_transparency (AnimationFrame t)
         (run step_sort_transparency es3 (setup_sort_transparency lib page win rand)) =
       update_sort_transparency t
         ((run step_sort_transparency es3 (setup_sort_transparency lib page win rand))\<lparr>raf_pending := 0\<rparr>)
   \<and> step_instancing lib (AnimationFrame t) (run (step_instancing lib) es4 (setup_instancing lib page win)) =
       update_instancing t
         ((run (step_instancing lib) es4 (setup_instancing lib page win))\<lparr>raf_pending := 0\<rparr>)"
proof -
  have 1: "raf_pending (run (step_point_lighting orb) es1 (setup_point_lighting lib orb page win)) = 1"
    by (rule run_invariant [where P = "\<lambda>s. raf_pending s = 1"])
      (simp_all add: raf_setup_point_lighting raf_step_point_lighting)
  have 2: "raf_pending (run step_indexed es2 (setup_indexed lib page win)) = 1"
    by (rule run_invariant [where P = "\<lambda>s. raf_pending s = 1"])
      (simp_all add: raf_setup_indexed raf_step_indexed)
  have 3: "raf_pending (run step_sort_transparency es3 (setup_sort_transparency lib page win rand)) = 1"
    by (rule run_invariant [where P = "\<lambda>s. raf_pending s = 1"])
      (simp_all add: raf_setup_sort_transparency raf_step_sort_transparency)
  have 4: "raf_pending (run (step_instancing lib) es4 (setup_instancing lib page win)) = 1"
    by (rule run_invariant [where P = "\<lambda>s. raf_pending s = 1"])
      (simp_all add: raf_setup_instancing raf_step_instancing)
  show ?thesis
    using 1 2 3 4
    by (simp add: raf_update_point_lighting raf_update_indexed raf_update_sort_transparency
        raf_update_instancing animation_frame_one)
qed

section \<open>The animation state\<close>

lemma animation_update_point_lighting:
  "animation_point_lighting (update_point_lighting orb t s) =
     (let (os, sc, dt, rest) = animation_point_lighting s
      in ((os[0 := (os ! 0)\<lparr>rotation := (rotation (os ! 0))\<lparr>vec_y := vec_y (rotation (os ! 0)) + 0.005\<rparr>\<rparr>],
           sc, - t * 0.00002, rest)))"
  by (simp add: animation_point_lighting_def update_point_lighting_def host_defs Let_def split: prod.split)

lemma animation_update_indexed:
  "animation_indexed (update_indexed t s) =
     (let (os, sc, u) = animation_indexed s in (os, sc, t * 0.001))"
  by (simp add: animation_indexed_def update_indexed_def host_defs Let_def)

lemma animation_update_sort_transparency:
  "animation_sort_transparency (update_sort_transparency t s) =
     (let (os, sc, ms, rest) = animation_sort_transparency s
      in (foldl (\<lambda>os m. os[m := spin (os ! m)]) os ms,
          sc\<lparr>rotation := (rotation sc)\<lparr>vec_y := vec_y (rotation sc) + 0.015\<rparr>\<rparr>, ms, rest))"
  by (simp add: animation_sort_transparency_def update_sort_transparency_def foldl_modify
      render_def requestAnimationFrame_def Let_def)

lemma animation_update_instancing:
  "animation_instancing (update_instancing t s) =
     (let (os, sc, mv, u, rest) = animation_instancing s
      in ((case mv of None \<Rightarrow> os
           | Some m \<Rightarrow> os[m := (os ! m)\<lparr>rotation := (rotation (os ! m))\<lparr>vec_y := vec_y (rotation (os ! m)) - 0.005\<rparr>\<rparr>]),
          sc, mv, t * 0.001, rest))"
  by (simp add: animation_instancing_def update_instancing_def host_defs Let_def split: option.split)

text \<open>
  C5. In each sample the animation state after an invocation of the frame callback is
  determined by the timestamp and the animation state before it: two invocations with the
  same timestamp, from states with equal animation state (whatever else differs: the
  window, the renderer, the camera and its controls, the pending callbacks, the requests
  issued), end with equal animation state.
\<close>

theorem animation_is_function_of_time_and_animation:
  "(animation_point_lighting s1 = animation_point_lighting s1' \<longrightarrow>
      animation_point_lighting (update_point_lighting orb t s1) =
      animation_point_lighting (update_point_lighting orb' t s1'))
   \<and> (animation_indexed s2 = animation_indexed s2' \<longrightarrow>
      animation_indexed (update_indexed t s2) = animation_indexed (update_indexed t s2'))
   \<and> (animation_sort_transparency s3 = animation_sort_transparency s3' \<longrightarrow>
      animation_sort_transparency (update_sort_transparency t s3) =
      animation_sort_transparency (update_sort_transparency t s3'))
   \<and> (animation_instancing s4 = animation_instancing s4' \<longrightarrow>
      animation_instancing (update_instancing t s4) = animation_instancing (update_instancing t s4'))"
  by (simp add: animation_update_point_lighting animation_update_indexed
      animation_update_sort_transparency animation_update_instancing)

theorem animation_is_function_of_time_and_animation_witness:
  "(let s = setup_point_lighting example_library example_orbit example_page example_window;
        s' = window_resize 640 480 (s\<lparr>raf_pending := 0\<rparr>)
    in animation_point_lighting s = animation_point_lighting s' \<and>
       animation_point_lighting (update_point_lighting example_orbit 16 s) =
       animation_point_lighting (update_point_lighting example_orbit 16 s'))
   \<and> (let s = setup_indexed example_library example_page example_window;
        s' = window_resize 640 480 (s\<lparr>raf_pending := 0\<rparr>)
    in animation_indexed s = animation_indexed s' \<and>
       animation_indexed (update_indexed 16 s) = animation_indexed (update_indexed 16 s'))
   \<and> (let s = setup_sort_transparency example_library example_page example_window (\<lambda>k. 1 / 2);
        s' = window_resize 640 480 (s\<lparr>raf_pending := 0\<rparr>)
    in animation_sort_transparency s = animation_sort_transparency s' \<and>
       animation_sort_transparency (update_sort_transparency 16 s) =
       animation_sort_transparency (update_sort_transparency 16 s'))
   \<and> (let s = setup_instancing example_library example_page example_window;
        s' = window_resize 640 480 (s\<lparr>raf_pending := 0\<rparr>)
    in animation_instancing s = animation_instancing s' \<and>
       animation_instancing (update_instancing 16 s) = animation_instancing (update_instancing 16 s'))"
proof -
  define a where "a = setup_point_lighting example_library example_orbit example_page example_window"
  define b where "b = setup_indexed example_library example_page example_window"
  define c where "c = setup_sort_transparency example_library example_page example_window (\<lambda>k. 1 / 2)"
  define d where "d = setup_instancing example_library example_page example_window"
  have ha: "animation_point_lighting a = animation_point_lighting (window_resize 640 480 (a\<lparr>raf_pending := 0\<rparr>))"
    by (simp add: animation_point_lighting_def window_resize_def resize_def Let_def)
  have hb: "animation_indexed b = animation_indexed (window_resize 640 480 (b\<lparr>raf_pending := 0\<rparr>))"
    by (simp add: animation_indexed_def window_resize_def resize_def Let_def)
  have hc: "animation_sort_transparency c = animation_sort_transparency (window_resize 640 480 (c\<lparr>raf_pending := 0\<rparr>))"
    by (simp add: animation_sort_transparency_def window_resize_def resize_def Let_def)
  have hd: "animation_instancing d = animation_instancing (window_resize 640 480 (d\<lparr>raf_pending := 0\<rparr>))"
    by (simp add: animation_instancing_def window_resize_def resize_def Let_def)
  show ?thesis
    using ha hb hc hd
      animation_is_function_of_time_and_animation
        [of a "window_resize 640 480 (a\<lparr>raf_pending := 0\<rparr>)" example_orbit 16 example_orbit
            b "window_resize 640 480 (b\<lparr>raf_pending := 0\<rparr>)"
            c "window_resize 640 480 (c\<lparr>raf_pending := 0\<rparr>)"
            d "window_resize 640 480 (d\<lparr>raf_pending := 0\<rparr>)"]
    unfolding a_def b_def c_def d_def Let_def by blast
qed

section \<open>The two geometries of the indexed sample\<close>

lemma stream_position_indexed:
  "vertex_stream indexedGeometry ''position'' =
     [[-0.5, 0.5, 0], [-0.5, -0.5, 0], [0.5, 0.5, 0], [-0.5, -0.5, 0], [0.5, -0.5, 0], [0.5, 0.5, 0]]"
  by (simp add: vertex_stream_def vertex_def indexedGeometry_def)

lemma stream_position_nonIndexed:
  "vertex_stream nonIndexedGeometry ''position'' =
     [[-0.5, 0.5, 0], [-0.5, -0.5, 0], [0.5, 0.5, 0], [-0.5, -0.5, 0], [0.5, -0.5, 0], [0.5, 0.5, 0]]"
  by (simp add: vertex_stream_def vertex_def nonIndexedGeometry_def upt_rec)

lemma stream_uv_indexed:
  "vertex_stream indexedGeometry ''uv'' = [[0, 1], [1, 1], [0, 0], [1, 1], [1, 0], [0, 0]]"
  by (simp add: vertex_stream_def vertex_def indexedGeometry_def)

lemma stream_uv_nonIndexed:
  "vertex_stream nonIndexedGeometry ''uv'' = [[0, 1], [1, 1], [0, 0], [1, 1], [1, 0], [0, 0]]"
  by (simp add: vertex_stream_def vertex_def nonIndexedGeometry_def upt_rec)

lemma pointwise_position:
  "map (\<lambda>i. map_option (\<lambda>a. vertex a ([0, 1, 2, 1, 3, 2] ! i)) (map_of (attributes indexedGeometry) ''position''))
       [0, 1, 2, 3, 4, 5] =
   map (\<lambda>i. map_option (\<lambda>a. vertex a i) (map_of (attributes nonIndexedGeometry) ''position''))
       [0, 1, 2, 3, 4, 5]"
  by (simp add: vertex_def indexedGeometry_def nonIndexedGeometry_def)

lemma pointwise_uv:
  "map (\<lambda>i. map_option (\<lambda>a. vertex a ([0, 1, 2, 1, 3, 2] ! i)) (map_of (attributes indexedGeometry) ''uv''))
       [0, 1, 2, 3, 4, 5] =
   map (\<lambda>i. map_option (\<lambda>a. vertex a i) (map_of (attributes nonIndexedGeometry) ''uv''))
       [0, 1, 2, 3, 4, 5]"
  by (simp add: vertex_def indexedGeometry_def nonIndexedGeometry_def)

text \<open>
  C9. The index list of the indexed geometry is 0, 1, 2, 1, 3, 2, and the other geometry
  has none. For each i from 0 to 5 the position triple and the uv pair of the indexed
  geometry at vertex \<open>index[i]\<close> are the i-th position triple and uv pair of the
  non-indexed geometry. So a draw reads the same six vertices, in the same order, from
  both: the same two triangles.
\<close>

theorem indexed_expansion_is_nonIndexed:
  "index indexedGeometry = Some [0, 1, 2, 1, 3, 2]
   \<and> index nonIndexedGeometry = None
   \<and> map (\<lambda>i. map_option (\<lambda>a. vertex a ([0, 1, 2, 1, 3, 2] ! i))
                 (map_of (attributes indexedGeometry) ''position'')) [0, 1, 2, 3, 4, 5] =
     map (\<lambda>i. map_option (\<lambda>a. vertex a i)
                 (map_of (attributes nonIndexedGeometry) ''position'')) [0, 1, 2, 3, 4, 5]
   \<and> map (\<lambda>i. map_option (\<lambda>a. vertex a ([0, 1, 2, 1, 3, 2] ! i))
                 (map_of (attributes indexedGeometry) ''uv'')) [0, 1, 2, 3, 4, 5] =
     map (\<lambda>i. map_option (\<lambda>a. vertex a i)
                 (map_of (attributes nonIndexedGeometry) ''uv'')) [0, 1, 2, 3, 4, 5]
   \<and> vertex_stream indexedGeometry ''position'' = vertex_stream nonIndexedGeometry ''position''
   \<and> vertex_stream indexedGeometry ''uv'' = vertex_stream nonIndexedGeometry ''uv''
   \<and> length (vertex_stream nonIndexedGeometry ''position'') = 6
   \<and> length (vertex_stream nonIndexedGeometry ''uv'') = 6"
proof -
  have "index indexedGeometry = Some [0, 1, 2, 1, 3, 2]" "index nonIndexedGeometry = None"
    by (simp_all add: indexedGeometry_def nonIndexedGeometry_def)
  then show ?thesis
    using pointwise_position pointwise_uv
    by (simp only: stream_position_indexed stream_position_nonIndexed stream_uv_indexed
        stream_uv_nonIndexed) simp
qed

section \<open>Geometries\<close>

lemma geometries_animation_frame:
  assumes "\<And>t s. geometries (update t s) = geometries s"
  shows "geometries (animation_frame update t s) = geometries s"
proof -
  have "geometries ((update t ^^ n) s') = geometries s'" for n s'
    by (induction n) (simp_all add: assms)
  then show ?thesis
    by (simp add: animation_frame_def)
qed

lemma geometries_update_point_lighting: "geometries (update_point_lighting orb t s) = geometries s"
  by (simp add: update_point_lighting_def host_defs Let_def split: prod.split)

lemma geometries_update_indexed: "geometries (update_indexed t s) = geometries s"
  by (simp add: update_indexed_def host_defs Let_def)

lemma geometries_update_sort_transparency: "geometries (update_sort_transparency t s) = geometries s"
  by (simp add: update_sort_transparency_def foldl_modify render_def requestAnimationFrame_def Let_def)

lemma geometries_update_instancing: "geometries (update_instancing t s) = geometries s"
  by (simp add: update_instancing_def host_defs Let_def split: option.split)

lemma geometries_resize: "geometries (resize s) = geometries s"
  by (simp add: resize_def Let_def)

lemma geometries_window_resize: "geometries (window_resize w h s) = geometries s"
  by (simp add: window_resize_def geometries_resize)

lemma geometries_img_onload: "geometries (img_onload k s) = geometries s"
  by (simp add: img_onload_def)

lemma geometries_image_load: "geometries (image_load k s) = geometries s"
  by (simp add: image_load_def geometries_img_onload)

lemma geometries_image_error: "geometries (image_error k s) = geometries s"
  by (simp add: image_error_def)

lemma geometries_mousemove: "geometries (mousemove ex ey s) = geometries s"
  by (simp add: mousemove_def Let_def)

lemma geometries_loadModel_continue:
  "prefix (geometries s) (geometries (loadModel_continue lib d rand s))"
  by (simp add: loadModel_continue_def host_defs Let_def split: option.split prod.split)

lemma geometries_step_point_lighting: "geometries (step_point_lighting orb e s) = geometries s"
  by (cases e)
    (simp_all add: geometries_animation_frame geometries_update_point_lighting geometries_window_resize
      geometries_image_load geometries_image_error geometries_mousemove)

lemma geometries_step_indexed: "geometries (step_indexed e s) = geometries s"
  by (cases e)
    (simp_all add: geometries_animation_frame geometries_update_indexed geometries_window_resize)

lemma geometries_step_sort_transparency: "geometries (step_sort_transparency e s) = geometries s"
  by (cases e)
    (simp_all add: geometries_animation_frame geometries_update_sort_transparency
      geometries_window_resize geometries_image_load geometries_image_error)

lemma geometries_step_instancing: "prefix (geometries s) (geometries (step_instancing lib e s))"
proof (cases e)
  case (FetchResolved d rand)
  then show ?thesis
    using geometries_loadModel_continue [of "s\<lparr>fetch_pending := False\<rparr>" lib d rand] by simp
qed (simp_all add: geometries_animation_frame geometries_update_instancing geometries_window_resize
      geometries_image_load geometries_image_error)

lemma geometries_run_instancing: "prefix (geometries s) (geometries (run (step_instancing lib) es s))"
proof (induction es rule: rev_induct)
  case Nil
  then show ?case by (simp add: run_Nil)
next
  case (snoc e es)
  then show ?case
    using geometries_step_instancing [of "run (step_instancing lib) es s" lib e]
    by (auto simp: run_snoc intro: prefix_order.trans)
qed

text \<open>
  C6. No handler writes to a geometry that exists: the frame callbacks, the resize
  handler, the image load handlers and the mouse handler leave the geometries as they
  are, and the load handler of the instancing sample only adds the one it constructs.
  So in every sample, through any sequence of events, the geometries constructed so far
  keep their attribute data and index list.
\<close>

theorem geometry_never_written_after_construction:
  "geometries (update_point_lighting orb t s1) = geometries s1
   \<and> geometries (update_indexed t s2) = geometries s2
   \<and> geometries (update_sort_transparency t s3) = geometries s3
   \<and> geometries (update_instancing t s4) = geometries s4
   \<and> geometries (resize s1) = geometries s1 \<and> geometries (resize s2) = geometries s2
   \<and> geometries (resize s3) = geometries s3 \<and> geometries (resize s4) = geometries s4
   \<and> geometries (img_onload k s1) = geometries s1 \<and> geometries (img_onload k s3) = geometries s3
   \<and> geometries (img_onload k s4) = geometries s4
   \<and> geometries (mousemove ex ey s1) = geometries s1
   \<and> prefix (geometries s4) (geometries (loadModel_continue lib d rand s4))
   \<and> geometries (run (step_point_lighting orb) es1 s1) = geometries s1
   \<and> geometries (run step_indexed es2 s2) = geometries s2
   \<and> geometries (run step_sort_transparency es3 s3) = geometries s3
   \<and> prefix (geometries s4) (geometries (run (step_instancing lib) es4 s4))"
proof -
  have "geometries (run (step_point_lighting orb) es1 s1) = geometries s1"
    by (rule run_invariant [where P = "\<lambda>s. geometries s = geometries s1"])
      (simp_all add: geometries_step_point_lighting)
  moreover have "geometries (run step_indexed es2 s2) = geometries s2"
    by (rule run_invariant [where P = "\<lambda>s. geometries s = geometries s2"])
      (simp_all add: geometries_step_indexed)
  moreover have "geometries (run step_sort_transparency es3 s3) = geometries s3"
    by (rule run_invariant [where P = "\<lambda>s. geometries s = geometries s3"])
      (simp_all add: geometries_step_sort_transparency)
  ultimately show ?thesis
    by (simp add: geometries_update_point_lighting geometries_update_indexed
        geometries_update_sort_transparency geometries_update_instancing geometries_resize
        geometries_img_onload geometries_mousemove geometries_loadModel_continue
        geometries_run_instancing)
qed

section \<open>Loading the model\<close>

lemma set_array_fits:
  "off + length xs \<le> length arr \<Longrightarrow> \<exists>arr'. set_array xs off arr = Some arr' \<and> length arr' = length arr"
  by (simp add: set_array_def)

lemma fill_completes:
  "length offset = num * 3 \<Longrightarrow> length random = num * 3 \<Longrightarrow>
   \<exists>offset' random'. fill rand i num (offset, random) = Some (offset', random')"
proof (induction "num - i" arbitrary: i offset random)
  case 0
  then show ?case by simp
next
  case (Suc n)
  then have lt: "i < num" and n: "n = num - (i + 1)"
    by simp_all
  let ?xs = "[rand (6 * i) * 2 - 1, rand (6 * i + 1) * 2 - 1, rand (6 * i + 2) * 2 - 1]"
  let ?ys = "[rand (6 * i + 3), rand (6 * i + 4), rand (6 * i + 5)]"
  from lt Suc.prems obtain offset' where
    o: "set_array ?xs (i * 3) offset = Some offset'" "length offset' = num * 3"
    using set_array_fits [of "i * 3" ?xs offset] by auto
  from lt Suc.prems obtain random' where
    r: "set_array ?ys (i * 3) random = Some random'" "length random' = num * 3"
    using set_array_fits [of "i * 3" ?ys random] by auto
  from Suc.hyps(1) [OF n o(2) r(2)] o(1) r(1) lt show ?case
    by (subst fill.simps) simp
qed

lemma loadModel_continue_creates:
  "mesh (loadModel_continue lib d rand s) = Some (length (objects s))
   \<and> objects (loadModel_continue lib d rand s) =
       objects s @ [transform.extend (new_Transform lib) \<lparr>geometry = length (geometries s), speed = None\<rparr>]
   \<and> scene (loadModel_continue lib d rand s) =
       (scene s)\<lparr>children := children (scene s) @ [length (objects s)]\<rparr>
   \<and> length (geometries (loadModel_continue lib d rand s)) = length (geometries s) + 1
   \<and> camera (loadModel_continue lib d rand s) = camera s
   \<and> rendered (loadModel_continue lib d rand s) = rendered s
   \<and> fetch_pending (loadModel_continue lib d rand s) = fetch_pending s"
proof -
  obtain offset random where
    "fill rand 0 20 (replicate (20 * 3) 0, replicate (20 * 3) 0) = Some (offset, random)"
    using fill_completes [of "replicate (20 * 3) 0" 20 "replicate (20 * 3) 0" rand 0] by auto
  then show ?thesis
    by (simp add: loadModel_continue_def host_defs Let_def del: fill.simps)
qed

lemma update_instancing_unloaded:
  "mesh s = None \<Longrightarrow>
   update_instancing t s =
     s\<lparr>raf_pending := raf_pending s + 1, instancing.uTime := t * 0.001,
       rendered := rendered s @ [(scene s, camera s)]\<rparr>"
  by (simp add: update_instancing_def host_defs Let_def)

lemma update_instancing_loaded:
  "mesh s = Some m \<Longrightarrow>
   update_instancing t s =
     s\<lparr>raf_pending := raf_pending s + 1,
       objects := (objects s)[m := (objects s ! m)\<lparr>rotation :=
          (rotation (objects s ! m))\<lparr>vec_y := vec_y (rotation (objects s ! m)) - 0.005\<rparr>\<rparr>],
       instancing.uTime := t * 0.001,
       rendered := rendered s @ [(scene s, camera s)]\<rparr>"
  by (simp add: update_instancing_def host_defs Let_def)

text \<open>
  C3. The instancing sample, in a state where the model has not arrived (the variable
  \<open>mesh\<close> is undefined, the fetch is pending) and the loop runs. An animation frame then
  runs the callback once: no mesh is touched, the scene is rendered, and the state is
  again of this kind. When the fetch resolves, \<open>loadModel\<close> creates the mesh, assigns it
  to the variable and attaches it to the scene; it registers no callback, so the one
  pending callback of the running loop stays. The next animation frame runs the callback
  once: it turns the new mesh by 0.005 about y and renders the scene with the mesh in it.
\<close>

theorem late_mesh_joins_running_loop:
  assumes "mesh s = None" and "fetch_pending s" and "raf_pending s = 1"
  shows
    "(let s1 = step_instancing lib (AnimationFrame t) s
      in objects s1 = objects s \<and> scene s1 = scene s \<and> mesh s1 = None
         \<and> rendered s1 = rendered s @ [(scene s, camera s)]
         \<and> fetch_pending s1 \<and> raf_pending s1 = 1)
     \<and> (let m = length (objects s);
             s2 = step_instancing lib (FetchResolved d rand) s;
             s3 = step_instancing lib (AnimationFrame t') s2
         in mesh s2 = Some m \<and> children (scene s2) = children (scene s) @ [m]
            \<and> length (objects s2) = m + 1
            \<and> rotation (objects s2 ! m) = rotation (new_Transform lib)
            \<and> raf_pending s2 = 1 \<and> rendered s2 = rendered s
            \<and> rotation (objects s3 ! m) =
                (rotation (new_Transform lib))\<lparr>vec_y := vec_y (rotation (new_Transform lib)) - 0.005\<rparr>
            \<and> rendered s3 = rendered s @ [(scene s2, camera s2)]
            \<and> mesh s3 = Some m \<and> scene s3 = scene s2 \<and> raf_pending s3 = 1)"
proof -
  let ?s0 = "s\<lparr>fetch_pending := False\<rparr>"
  let ?s2 = "loadModel_continue lib d rand ?s0"
  have s2: "step_instancing lib (FetchResolved d rand) s = ?s2"
    using assms by simp
  note c = loadModel_continue_creates [of lib d rand ?s0]
  have r2: "raf_pending ?s2 = 1"
    using assms by (simp add: raf_loadModel_continue)
  have m2: "mesh (?s2\<lparr>raf_pending := 0\<rparr>) = Some (length (objects s))"
    using c by simp
  have first: "step_instancing lib (AnimationFrame t) s =
      update_instancing t (s\<lparr>raf_pending := 0\<rparr>)"
    using assms by (simp add: animation_frame_one)
  have third: "step_instancing lib (AnimationFrame t') ?s2 =
      update_instancing t' (?s2\<lparr>raf_pending := 0\<rparr>)"
    using r2 by (simp add: animation_frame_one)
  have before: "(let s1 = step_instancing lib (AnimationFrame t) s
      in objects s1 = objects s \<and> scene s1 = scene s \<and> mesh s1 = None
         \<and> rendered s1 = rendered s @ [(scene s, camera s)]
         \<and> fetch_pending s1 \<and> raf_pending s1 = 1)"
    unfolding first Let_def using assms by (simp add: update_instancing_unloaded)
  have after: "(let m = length (objects s);
             s2 = step_instancing lib (FetchResolved d rand) s;
             s3 = step_instancing lib (AnimationFrame t') s2
         in mesh s2 = Some m \<and> children (scene s2) = children (scene s) @ [m]
            \<and> length (objects s2) = m + 1
            \<and> rotation (objects s2 ! m) = rotation (new_Transform lib)
            \<and> raf_pending s2 = 1 \<and> rendered s2 = rendered s
            \<and> rotation (objects s3 ! m) =
                (rotation (new_Transform lib))\<lparr>vec_y := vec_y (rotation (new_Transform lib)) - 0.005\<rparr>
            \<and> rendered s3 = rendered s @ [(scene s2, camera s2)]
            \<and> mesh s3 = Some m \<and> scene s3 = scene s2 \<and> raf_pending s3 = 1)"
    unfolding s2 third Let_def update_instancing_loaded [OF m2]
    using c r2 by (simp add: transform.defs)
  from before after show ?thesis by blast
qed

lemma setup_instancing_fields:
  "mesh (setup_instancing lib page win) = None"
  "fetch_pending (setup_instancing lib page win)"
  "objects (setup_instancing lib page win) = []"
  "children (scene (setup_instancing lib page win)) = []"
  "rendered (setup_instancing lib page win) = []"
  by (simp_all add: setup_instancing_def set_page_text_def host_defs resize_def loadModel_def
      Transform_def transform.defs Let_def split: list.split)

theorem late_mesh_joins_running_loop_witness:
  "(let s = setup_instancing example_library example_page example_window;
        s2 = step_instancing example_library (FetchResolved example_model (\<lambda>k. 1 / 2) :: unit event) s;
        s3 = step_instancing example_library (AnimationFrame 33 :: unit event) s2
    in mesh s = None \<and> fetch_pending s \<and> raf_pending s = 1
       \<and> mesh s2 = Some 0 \<and> children (scene s2) = [0] \<and> raf_pending s2 = 1
       \<and> vec_y (rotation (objects s3 ! 0)) = - 0.005 \<and> length (rendered s3) = 1)"
proof -
  let ?s = "setup_instancing example_library example_page example_window"
  have h: "mesh ?s = None" "fetch_pending ?s" "raf_pending ?s = 1"
    by (simp_all add: setup_instancing_fields raf_setup_instancing)
  show ?thesis
    using h late_mesh_joins_running_loop [OF h, of example_library 16 example_model "\<lambda>k. 1 / 2" 33]
    by (simp add: Let_def setup_instancing_fields example_library_def Vec3_def)
qed

section \<open>The leaves of the sort-transparency sample\<close>

lemma above_iff: "above os \<longleftrightarrow> (\<forall>p \<in> set (map position os). - 3 \<le> vec_y p)"
  by (simp add: above_def list_all_iff)

lemma spin_position: "- 3 \<le> vec_y (position m) \<Longrightarrow> position (spin m) = position m"
  by (simp add: spin_def Let_def)

lemma spin_at:
  assumes "above os"
  shows "map position (os[m := spin (os ! m)]) = map position os"
proof (cases "m < length os")
  case True
  with assms have "position (spin (os ! m)) = position (os ! m)"
    by (intro spin_position) (simp add: above_iff)
  with True show ?thesis
    by (simp add: map_update list_update_same_conv)
next
  case False
  then show ?thesis by (simp add: list_update_beyond)
qed

lemma spin_all:
  "above os \<Longrightarrow> map position (foldl (\<lambda>os m. os[m := spin (os ! m)]) os ms) = map position os"
proof (induction ms arbitrary: os)
  case Nil
  then show ?case by simp
next
  case (Cons m ms)
  have eq: "map position (os[m := spin (os ! m)]) = map position os"
    by (rule spin_at) (rule Cons.prems)
  with Cons.prems have "above (os[m := spin (os ! m)])"
    by (simp add: above_iff)
  from Cons.IH [OF this] eq show ?case by simp
qed

lemma positions_update_sort_transparency:
  "above (objects s) \<Longrightarrow>
   map position (objects (update_sort_transparency t s)) = map position (objects s)"
  by (simp add: update_sort_transparency_def foldl_modify render_def requestAnimationFrame_def Let_def
      spin_all)

lemma positions_animation_frame_sort_transparency:
  assumes "above (objects s)"
  shows "map position (objects (animation_frame update_sort_transparency t s)) = map position (objects s)"
proof -
  have "above (objects s') \<Longrightarrow>
      map position (objects ((update_sort_transparency t ^^ n) s')) = map position (objects s')" for n s'
  proof (induction n)
    case 0
    then show ?case by simp
  next
    case (Suc n)
    then have "above (objects ((update_sort_transparency t ^^ n) s'))"
      by (simp add: above_iff)
    with Suc show ?case
      by (simp add: positions_update_sort_transparency)
  qed
  from this [of "s\<lparr>raf_pending := 0\<rparr>" "raf_pending s"] assms show ?thesis
    by (simp add: animation_frame_def)
qed

lemma objects_window_resize: "objects (window_resize w h s) = objects s"
  by (simp add: window_resize_def resize_def Let_def)

lemma objects_image_load: "objects (image_load k s) = objects s"
  by (simp add: image_load_def img_onload_def)

lemma objects_image_error: "objects (image_error k s) = objects s"
  by (simp add: image_error_def)

lemma positions_step_sort_transparency:
  "above (objects s) \<Longrightarrow>
   map position (objects (step_sort_transparency e s)) = map position (objects s)"
  by (cases e)
    (simp_all add: positions_animation_frame_sort_transparency objects_window_resize
      objects_image_load objects_image_error)

lemma positions_run_sort_transparency:
  assumes "above (objects s)"
  shows "map position (objects (run step_sort_transparency es s)) = map position (objects s)"
proof (rule run_invariant [where P = "\<lambda>s'. map position (objects s') = map position (objects s)"])
  show "map position (objects s) = map position (objects s)" ..
next
  fix e :: "'a event" and s' :: sort_transparency
  assume eq: "map position (objects s') = map position (objects s)"
  with assms have "above (objects s')"
    by (simp add: above_iff)
  from positions_step_sort_transparency [OF this] eq
  show "map position (objects (step_sort_transparency e s')) = map position (objects s)"
    by simp
qed

lemma leaf_adds:
  "objects (leaf lib rand i s) = objects s @
     [(transform.extend (new_Transform lib) \<lparr>geometry = 0, speed = None\<rparr>)
        \<lparr>position := Vec3 ((rand (7 * i) - 0.5) * 3) ((rand (7 * i + 1) - 0.5) * 6) ((rand (7 * i + 2) - 0.5) * 3),
         rotation := Vec3 0 ((rand (7 * i + 3) - 0.5) * 6.28) ((rand (7 * i + 4) - 0.5) * 6.28),
         scale := Vec3 (rand (7 * i + 5) * 0.5 + 0.2) (rand (7 * i + 5) * 0.5 + 0.2) (rand (7 * i + 5) * 0.5 + 0.2),
         speed := Some (rand (7 * i + 6) * 1.5 + 0.2)\<rparr>]"
  "meshes (leaf lib rand i s) = meshes s @ [length (objects s)]"
  "children (scene (leaf lib rand i s)) = children (scene s) @ [length (objects s)]"
  by (simp_all add: leaf_def host_defs Let_def)

lemma leaves_positions:
  "map position (objects (foldl (\<lambda>s i. leaf lib rand i s) s is)) =
     map position (objects s) @
     map (\<lambda>i. Vec3 ((rand (7 * i) - 0.5) * 3) ((rand (7 * i + 1) - 0.5) * 6) ((rand (7 * i + 2) - 0.5) * 3)) is"
  by (induction "is" arbitrary: s) (simp_all add: leaf_adds)

lemma leaves_meshes:
  "meshes (foldl (\<lambda>s i. leaf lib rand i s) s is) =
     meshes s @ [length (objects s)..<length (objects s) + length is]"
proof (induction "is" arbitrary: s)
  case Nil
  then show ?case by simp
next
  case (Cons i "is")
  show ?case
    by (simp add: Cons.IH leaf_adds upt_conv_Cons del: upt_Suc)
qed

lemma setup_sort_transparency_positions:
  "map position (objects (setup_sort_transparency lib page win rand)) =
     map (\<lambda>i. Vec3 ((rand (7 * i) - 0.5) * 3) ((rand (7 * i + 1) - 0.5) * 6) ((rand (7 * i + 2) - 0.5) * 3))
       [0..<50]"
  by (simp add: setup_sort_transparency_def set_page_text_def Let_def leaves_positions
      requestAnimationFrame_def Geometry_def Texture_def Image_def resize_def split: list.split)

lemma setup_sort_transparency_meshes:
  "meshes (setup_sort_transparency lib page win rand) = [0..<50]"
  by (simp add: setup_sort_transparency_def set_page_text_def Let_def leaves_meshes
      requestAnimationFrame_def Geometry_def Texture_def Image_def resize_def split: list.split)

text \<open>
  C10. The sort-transparency sample, with \<open>Math.random()\<close> returning values from 0 up to,
  not including, 1. The setup puts mesh \<open>i\<close> at a position made from the draws
  \<open>7 i\<close>, \<open>7 i + 1\<close>, \<open>7 i + 2\<close>, whose y lies between -3 and 3. After any sequence of
  events (frames, resizes, image loads) every mesh is at its setup position with y not
  below -3, so the branch \<open>position.y < -3\<close> of the frame callback is not taken for
  any mesh, and one more invocation of the callback leaves the positions alone again.
\<close>

theorem leaves_stay_where_setup_put_them:
  assumes "\<forall>k. 0 \<le> rand k \<and> rand k < 1"
  shows
    "map position (objects (setup_sort_transparency lib page win rand)) =
       map (\<lambda>i. Vec3 ((rand (7 * i) - 0.5) * 3) ((rand (7 * i + 1) - 0.5) * 6) ((rand (7 * i + 2) - 0.5) * 3))
         [0..<50]
     \<and> list_all (\<lambda>m. - 3 \<le> vec_y (position m) \<and> vec_y (position m) \<le> 3)
         (objects (setup_sort_transparency lib page win rand))
     \<and> map position (objects (run step_sort_transparency es (setup_sort_transparency lib page win rand))) =
       map position (objects (setup_sort_transparency lib page win rand))
     \<and> list_all (\<lambda>m. - 3 \<le> vec_y (position m) \<and> vec_y (position m) \<le> 3 \<and> position (spin m) = position m)
         (objects (run step_sort_transparency es (setup_sort_transparency lib page win rand)))
     \<and> map position (objects (update_sort_transparency t
           (run step_sort_transparency es (setup_sort_transparency lib page win rand)))) =
       map position (objects (setup_sort_transparency lib page win rand))"
proof -
  let ?init = "setup_sort_transparency lib page win rand"
  let ?now = "run step_sort_transparency es ?init"
  have y: "- 3 \<le> (rand k - 0.5) * 6 \<and> (rand k - 0.5) * 6 \<le> 3" for k
    using assms [rule_format, of k] by simp
  have bounds: "\<forall>p \<in> set (map position (objects ?init)). - 3 \<le> vec_y p \<and> vec_y p \<le> 3"
    unfolding setup_sort_transparency_positions using y by (simp add: Vec3_def)
  then have above0: "above (objects ?init)"
    by (simp add: above_iff)
  have same: "map position (objects ?now) = map position (objects ?init)"
    by (rule positions_run_sort_transparency) (rule above0)
  have bounds': "\<forall>p \<in> set (map position (objects ?now)). - 3 \<le> vec_y p \<and> vec_y p \<le> 3"
    unfolding same by (rule bounds)
  then have above': "above (objects ?now)"
    by (simp add: above_iff)
  have "list_all (\<lambda>m. - 3 \<le> vec_y (position m) \<and> vec_y (position m) \<le> 3) (objects ?init)"
    using bounds by (simp add: list_all_iff)
  moreover have "list_all (\<lambda>m. - 3 \<le> vec_y (position m) \<and> vec_y (position m) \<le> 3
      \<and> position (spin m) = position m) (objects ?now)"
    using bounds' by (simp add: list_all_iff spin_position)
  moreover have "map position (objects (update_sort_transparency t ?now)) = map position (objects ?init)"
    using positions_update_sort_transparency [OF above', of t] same by simp
  ultimately show ?thesis
    using same setup_sort_transparency_positions [of lib page win rand] by blast
qed

theorem leaves_stay_where_setup_put_them_witness:
  "(\<forall>k::nat. (0::real) \<le> 1 / 2 \<and> (1 / 2 :: real) < 1)
   \<and> map position (objects (run step_sort_transparency
         [AnimationFrame 16, Resize 800 600, AnimationFrame 33 :: unit event]
         (setup_sort_transparency example_library example_page example_window (\<lambda>k. 1 / 2)))) =
       replicate 50 (Vec3 0 0 0)"
proof -
  have h: "\<forall>k::nat. 0 \<le> (\<lambda>k. 1 / 2 :: real) k \<and> (\<lambda>k. 1 / 2 :: real) k < 1"
    by simp
  show ?thesis
    using leaves_stay_where_setup_put_them [OF h, of example_library example_page example_window
        "[AnimationFrame 16, Resize 800 600, AnimationFrame 33 :: unit event]" 0]
    by (simp add: map_replicate_const)
qed

section \<open>Failed loads\<close>

lemma animation_frame_invariant:
  assumes "P (s\<lparr>raf_pending := 0\<rparr>)" and "\<And>s. P s \<Longrightarrow> P (update t s)"
  shows "P (animation_frame update t s)"
proof -
  have "P ((update t ^^ n) (s\<lparr>raf_pending := 0\<rparr>))" for n
    by (induction n) (simp_all add: assms)
  then show ?thesis
    by (simp add: animation_frame_def)
qed

lemma image_lost_cong:
  "textures s' = textures s \<Longrightarrow> images s' = images s \<Longrightarrow> image_lost k s' = image_lost k s"
  by (simp add: image_lost_def)

lemma image_lost_animation_frame:
  assumes "\<And>s. textures (update t s) = textures s" and "\<And>s. images (update t s) = images s"
    and "image_lost k s"
  shows "image_lost k (animation_frame update t s)"
proof (rule animation_frame_invariant)
  show "image_lost k (s\<lparr>raf_pending := 0\<rparr>)"
    using assms(3) by (simp add: image_lost_def)
next
  fix s' :: "'a world_scheme"
  assume "image_lost k s'"
  then show "image_lost k (update t s')"
    by (simp add: image_lost_def assms(1,2))
qed

lemma image_lost_image_load: "image_lost k s \<Longrightarrow> image_lost k (image_load j s)"
  by (cases "j = k") (auto simp: image_lost_def image_load_def img_onload_def)

lemma image_lost_image_error: "image_lost k s \<Longrightarrow> image_lost k (image_error j s)"
  by (cases "j = k") (auto simp: image_lost_def image_error_def)

lemma image_lost_window_resize: "image_lost k s \<Longrightarrow> image_lost k (window_resize w h s)"
  by (simp add: image_lost_def window_resize_def resize_def Let_def)

lemma image_error_loading:
  "k < length (images s) \<Longrightarrow> state (images s ! k) = Loading \<Longrightarrow>
   image_error k s = s\<lparr>images := (images s)[k := (images s ! k)\<lparr>state := Broken\<rparr>]\<rparr>"
  by (simp add: image_error_def)

lemma image_lost_after_error:
  "k < length (images s) \<Longrightarrow> k < length (textures s) \<Longrightarrow> state (images s ! k) = Loading \<Longrightarrow>
   image (textures s ! k) = None \<Longrightarrow> image_lost k (image_error k s)"
  by (simp add: image_error_loading) (simp add: image_lost_def)

lemma assets_update_point_lighting:
  "textures (update_point_lighting orb t s) = textures s"
  "images (update_point_lighting orb t s) = images s"
  "document (update_point_lighting orb t s) = document s"
  by (simp_all add: update_point_lighting_def host_defs Let_def split: prod.split)

lemma assets_update_sort_transparency:
  "textures (update_sort_transparency t s) = textures s"
  "images (update_sort_transparency t s) = images s"
  "document (update_sort_transparency t s) = document s"
  by (simp_all add: update_sort_transparency_def foldl_modify render_def requestAnimationFrame_def Let_def)

lemma assets_update_instancing:
  "textures (update_instancing t s) = textures s"
  "images (update_instancing t s) = images s"
  "document (update_instancing t s) = document s"
  by (simp_all add: update_instancing_def host_defs Let_def split: option.split)

lemma assets_loadModel_continue:
  "textures (loadModel_continue lib d rand s) = textures s"
  "images (loadModel_continue lib d rand s) = images s"
  "document (loadModel_continue lib d rand s) = document s"
  by (simp_all add: loadModel_continue_def host_defs Let_def split: option.split prod.split)

lemma image_lost_step_point_lighting:
  "image_lost k s \<Longrightarrow> image_lost k (step_point_lighting orb e s)"
  by (cases e)
    (simp_all add: image_lost_animation_frame assets_update_point_lighting image_lost_window_resize
      image_lost_image_load image_lost_image_error,
     simp_all add: image_lost_def mousemove_def Let_def)

lemma image_lost_step_sort_transparency:
  "image_lost k s \<Longrightarrow> image_lost k (step_sort_transparency e s)"
  by (cases e)
    (simp_all add: image_lost_animation_frame assets_update_sort_transparency image_lost_window_resize
      image_lost_image_load image_lost_image_error)

lemma image_lost_step_instancing:
  "image_lost k s \<Longrightarrow> image_lost k (step_instancing lib e s)"
  by (cases e)
    (simp_all add: image_lost_animation_frame assets_update_instancing image_lost_window_resize
      image_lost_image_load image_lost_image_error,
     simp_all add: image_lost_def assets_loadModel_continue)

lemma document_animation_frame:
  assumes "\<And>s. document (update t s) = document s"
  shows "document (animation_frame update t s) = document s"
  by (rule animation_frame_invariant [where P = "\<lambda>s'. document s' = document s"])
    (simp_all add: assms)

lemma document_window_resize: "document (window_resize w h s) = document s"
  by (simp add: window_resize_def resize_def Let_def)

lemma document_image_load: "document (image_load k s) = document s"
  by (simp add: image_load_def img_onload_def)

lemma document_image_error: "document (image_error k s) = document s"
  by (simp add: image_error_def)

lemma document_step_point_lighting: "document (step_point_lighting orb e s) = document s"
  by (cases e)
    (simp_all add: document_animation_frame assets_update_point_lighting document_window_resize
      document_image_load document_image_error mousemove_def Let_def)

lemma document_step_sort_transparency: "document (step_sort_transparency e s) = document s"
  by (cases e)
    (simp_all add: document_animation_frame assets_update_sort_transparency document_window_resize
      document_image_load document_image_error)

lemma document_step_instancing: "document (step_instancing lib e s) = document s"
  by (cases e)
    (simp_all add: document_animation_frame assets_update_instancing document_window_resize
      document_image_load document_image_error assets_loadModel_continue)

lemma page_and_loop_step_point_lighting:
  "page_and_loop d s \<Longrightarrow> page_and_loop d (step_point_lighting orb e s)"
  by (simp add: page_and_loop_def raf_step_point_lighting document_step_point_lighting)

lemma page_and_loop_step_sort_transparency:
  "page_and_loop d s \<Longrightarrow> page_and_loop d (step_sort_transparency e s)"
  by (simp add: page_and_loop_def raf_step_sort_transparency document_step_sort_transparency)

lemma page_and_loop_step_instancing:
  "page_and_loop d s \<Longrightarrow> page_and_loop d (step_instancing lib e s)"
  by (simp add: page_and_loop_def raf_step_instancing document_step_instancing)

lemma model_lost_update_instancing: "model_lost s0 s \<Longrightarrow> model_lost s0 (update_instancing t s)"
  by (simp add: model_lost_def update_instancing_unloaded)

lemma model_lost_step_instancing: "model_lost s0 s \<Longrightarrow> model_lost s0 (step_instancing lib e s)"
proof (cases e)
  case (AnimationFrame t)
  assume "model_lost s0 s"
  then have "model_lost s0 (s\<lparr>raf_pending := 0\<rparr>)"
    by (simp add: model_lost_def)
  then have "model_lost s0 (animation_frame update_instancing t s)"
    by (rule animation_frame_invariant) (rule model_lost_update_instancing)
  with AnimationFrame show ?thesis by simp
qed (simp_all add: model_lost_def window_resize_def resize_def Let_def image_load_def img_onload_def
      image_error_def)

lemma frame_renders_once:
  "raf_pending s1 = 1 \<Longrightarrow>
   length (rendered (step_point_lighting orb (AnimationFrame t) s1)) = Suc (length (rendered s1))"
  "raf_pending s3 = 1 \<Longrightarrow>
   length (rendered (step_sort_transparency (AnimationFrame t) s3)) = Suc (length (rendered s3))"
  "raf_pending s4 = 1 \<Longrightarrow>
   length (rendered (step_instancing lib (AnimationFrame t) s4)) = Suc (length (rendered s4))"
  by (simp_all add: animation_frame_one rendered_update_point_lighting
      rendered_update_sort_transparency rendered_update_instancing)

lemma after_image_error:
  fixes step :: "'e \<Rightarrow> 'a world_scheme \<Rightarrow> 'a world_scheme"
  assumes "k < length (images s) \<and> k < length (textures s) \<and> state (images s ! k) = Loading
      \<and> image (textures s ! k) = None \<and> raf_pending s = 1"
    and lost: "\<And>e s. image_lost k s \<Longrightarrow> image_lost k (step e s)"
    and page: "\<And>e s. page_and_loop (document s0) s \<Longrightarrow> page_and_loop (document s0) (step e s)"
    and s0: "document s0 = document s"
  shows "image_error k s = s\<lparr>images := (images s)[k := (images s ! k)\<lparr>state := Broken\<rparr>]\<rparr>
    \<and> image (textures (run step es (image_error k s)) ! k) = None
    \<and> document (run step es (image_error k s)) = document s
    \<and> raf_pending (run step es (image_error k s)) = 1"
proof -
  have "image_lost k (image_error k s)"
    using assms(1) by (simp add: image_lost_after_error)
  then have "image_lost k (run step es (image_error k s))"
    by (rule run_invariant) (rule lost)
  moreover have "page_and_loop (document s0) (image_error k s)"
    using assms(1) s0 by (simp add: page_and_loop_def document_image_error raf_image_error)
  then have "page_and_loop (document s0) (run step es (image_error k s))"
    by (rule run_invariant) (rule page)
  ultimately show ?thesis
    using assms(1) s0 by (simp add: image_lost_def page_and_loop_def image_error_loading)
qed

lemma after_fetch_rejected:
  fixes es :: "'c event list"
  assumes "fetch_pending s \<and> mesh s = None \<and> raf_pending s = 1"
  shows "step_instancing lib (FetchRejected :: 'c event) s = s\<lparr>fetch_pending := False\<rparr>
    \<and> mesh (run (step_instancing lib) es (step_instancing lib (FetchRejected :: 'c event) s)) = None
    \<and> objects (run (step_instancing lib) es (step_instancing lib (FetchRejected :: 'c event) s)) = objects s
    \<and> scene (run (step_instancing lib) es (step_instancing lib (FetchRejected :: 'c event) s)) = scene s
    \<and> document (run (step_instancing lib) es (step_instancing lib (FetchRejected :: 'c event) s)) = document s
    \<and> raf_pending (run (step_instancing lib) es (step_instancing lib (FetchRejected :: 'c event) s)) = 1"
proof -
  define r where "r = step_instancing lib (FetchRejected :: 'c event) s"
  have r: "r = s\<lparr>fetch_pending := False\<rparr>"
    using assms by (simp add: r_def)
  have "model_lost s r"
    unfolding r by (simp add: model_lost_def assms)
  then have "model_lost s (run (step_instancing lib) es r)"
    by (rule run_invariant) (rule model_lost_step_instancing)
  moreover have "page_and_loop (document s) r"
    unfolding r by (simp add: page_and_loop_def assms)
  then have "page_and_loop (document s) (run (step_instancing lib) es r)"
    by (rule run_invariant) (rule page_and_loop_step_instancing)
  ultimately show ?thesis
    using r unfolding r_def by (simp add: model_lost_def page_and_loop_def)
qed

text \<open>
  C7. No sample reacts to a failed load. An image that is loading and fails only becomes a
  broken image: no handler runs, nothing else in the state changes. After that, through
  any sequence of events, its texture never gets an image, the page's texts stay as they
  were, one frame callback stays pending and each animation frame renders once. This holds
  in the three samples that load images. In the instancing sample a rejected fetch only
  ends the fetch: through any sequence of events afterwards the variable \<open>mesh\<close> stays
  undefined, no mesh is created or attached to the scene, the page's texts stay as they
  were, and the loop goes on rendering.
\<close>

theorem failed_load_leaves_element_absent:
  "(k < length (images s1) \<and> k < length (textures s1) \<and> state (images s1 ! k) = Loading
      \<and> image (textures s1 ! k) = None \<and> raf_pending s1 = 1 \<longrightarrow>
    (let f = step_point_lighting orb (ImageError k) s1; s' = run (step_point_lighting orb) es1 f
     in f = s1\<lparr>images := (images s1)[k := (images s1 ! k)\<lparr>state := Broken\<rparr>]\<rparr>
        \<and> image (textures s' ! k) = None \<and> document s' = document s1 \<and> raf_pending s' = 1
        \<and> length (rendered (step_point_lighting orb (AnimationFrame t) s')) = length (rendered s') + 1))
   \<and> (k < length (images s3) \<and> k < length (textures s3) \<and> state (images s3 ! k) = Loading
      \<and> image (textures s3 ! k) = None \<and> raf_pending s3 = 1 \<longrightarrow>
    (let f = step_sort_transparency (ImageError k) s3; s' = run step_sort_transparency es3 f
     in f = s3\<lparr>images := (images s3)[k := (images s3 ! k)\<lparr>state := Broken\<rparr>]\<rparr>
        \<and> image (textures s' ! k) = None \<and> document s' = document s3 \<and> raf_pending s' = 1
        \<and> length (rendered (step_sort_transparency (AnimationFrame t) s')) = length (rendered s') + 1))
   \<and> (k < length (images s4) \<and> k < length (textures s4) \<and> state (images s4 ! k) = Loading
      \<and> image (textures s4 ! k) = None \<and> raf_pending s4 = 1 \<longrightarrow>
    (let f = step_instancing lib (ImageError k) s4; s' = run (step_instancing lib) es4 f
     in f = s4\<lparr>images := (images s4)[k := (images s4 ! k)\<lparr>state := Broken\<rparr>]\<rparr>
        \<and> image (textures s' ! k) = None \<and> document s' = document s4 \<and> raf_pending s' = 1
        \<and> length (rendered (step_instancing lib (AnimationFrame t) s')) = length (rendered s') + 1))
   \<and> (fetch_pending s5 \<and> mesh s5 = None \<and> raf_pending s5 = 1 \<longrightarrow>
    (let f = step_instancing lib FetchRejected s5; s' = run (step_instancing lib) es5 f
     in f = s5\<lparr>fetch_pending := False\<rparr>
        \<and> mesh s' = None \<and> objects s' = objects s5 \<and> scene s' = scene s5
        \<and> document s' = document s5 \<and> raf_pending s' = 1
        \<and> length (rendered (step_instancing lib (AnimationFrame t) s')) = length (rendered s') + 1))"
proof (intro conjI impI)
  assume h: "k < length (images s1) \<and> k < length (textures s1) \<and> state (images s1 ! k) = Loading
      \<and> image (textures s1 ! k) = None \<and> raf_pending s1 = 1"
  have "image_error k s1 = s1\<lparr>images := (images s1)[k := (images s1 ! k)\<lparr>state := Broken\<rparr>]\<rparr>
    \<and> image (textures (run (step_point_lighting orb) es1 (image_error k s1)) ! k) = None
    \<and> document (run (step_point_lighting orb) es1 (image_error k s1)) = document s1
    \<and> raf_pending (run (step_point_lighting orb) es1 (image_error k s1)) = 1"
    by (rule after_image_error [where ?s0.0 = s1, OF h _ _ refl])
      (erule image_lost_step_point_lighting, erule page_and_loop_step_point_lighting)
  then show "let f = step_point_lighting orb (ImageError k) s1; s' = run (step_point_lighting orb) es1 f
     in f = s1\<lparr>images := (images s1)[k := (images s1 ! k)\<lparr>state := Broken\<rparr>]\<rparr>
        \<and> image (textures s' ! k) = None \<and> document s' = document s1 \<and> raf_pending s' = 1
        \<and> length (rendered (step_point_lighting orb (AnimationFrame t) s')) = length (rendered s') + 1"
    unfolding Let_def step_point_lighting.simps(4)
    by (elim conjE) (simp add: frame_renders_once del: step_point_lighting.simps)
next
  assume h: "k < length (images s3) \<and> k < length (textures s3) \<and> state (images s3 ! k) = Loading
      \<and> image (textures s3 ! k) = None \<and> raf_pending s3 = 1"
  have "image_error k s3 = s3\<lparr>images := (images s3)[k := (images s3 ! k)\<lparr>state := Broken\<rparr>]\<rparr>
    \<and> image (textures (run (step_sort_transparency) es3 (image_error k s3)) ! k) = None
    \<and> document (run (step_sort_transparency) es3 (image_error k s3)) = document s3
    \<and> raf_pending (run (step_sort_transparency) es3 (image_error k s3)) = 1"
    by (rule after_image_error [where ?s0.0 = s3, OF h _ _ refl])
      (erule image_lost_step_sort_transparency, erule page_and_loop_step_sort_transparency)
  then show "let f = step_sort_transparency (ImageError k) s3; s' = run step_sort_transparency es3 f
     in f = s3\<lparr>images := (images s3)[k := (images s3 ! k)\<lparr>state := Broken\<rparr>]\<rparr>
        \<and> image (textures s' ! k) = None \<and> document s' = document s3 \<and> raf_pending s' = 1
        \<and> length (rendered (step_sort_transparency (AnimationFrame t) s')) = length (rendered s') + 1"
    unfolding Let_def step_sort_transparency.simps(4)
    by (elim conjE) (simp add: frame_renders_once del: step_sort_transparency.simps)
next
  assume h: "k < length (images s4) \<and> k < length (textures s4) \<and> state (images s4 ! k) = Loading
      \<and> image (textures s4 ! k) = None \<and> raf_pending s4 = 1"
  have "image_error k s4 = s4\<lparr>images := (images s4)[k := (images s4 ! k)\<lparr>state := Broken\<rparr>]\<rparr>
    \<and> image (textures (run (step_instancing lib) es4 (image_error k s4)) ! k) = None
    \<and> document (run (step_instancing lib) es4 (image_error k s4)) = document s4
    \<and> raf_pending (run (step_instancing lib) es4 (image_error k s4)) = 1"
    by (rule after_image_error [where ?s0.0 = s4, OF h _ _ refl])
      (erule image_lost_step_instancing, erule page_and_loop_step_instancing)
  then show "let f = step_instancing lib (ImageError k) s4; s' = run (step_instancing lib) es4 f
     in f = s4\<lparr>images := (images s4)[k := (images s4 ! k)\<lparr>state := Broken\<rparr>]\<rparr>
        \<and> image (textures s' ! k) = None \<and> document s' = document s4 \<and> raf_pending s' = 1
        \<and> length (rendered (step_instancing lib (AnimationFrame t) s')) = length (rendered s') + 1"
    unfolding Let_def step_instancing.simps(4)
    by (elim conjE) (simp add: frame_renders_once del: step_instancing.simps)
next
  assume h: "fetch_pending s5 \<and> mesh s5 = None \<and> raf_pending s5 = 1"
  from after_fetch_rejected [OF h, of lib es5] h
  show "let f = step_instancing lib FetchRejected s5; s' = run (step_instancing lib) es5 f
     in f = s5\<lparr>fetch_pending := False\<rparr>
        \<and> mesh s' = None \<and> objects s' = objects s5 \<and> scene s' = scene s5
        \<and> document s' = document s5 \<and> raf_pending s' = 1
        \<and> length (rendered (step_instancing lib (AnimationFrame t) s')) = length (rendered s') + 1"
    unfolding Let_def
    by (elim conjE) (simp add: frame_renders_once del: step_instancing.simps(1))
qed

lemma assets_leaves:
  "textures (foldl (\<lambda>s i. leaf lib rand i s) s is) = textures s"
  "images (foldl (\<lambda>s i. leaf lib rand i s) s is) = images s"
  by (induction "is" arbitrary: s) (simp_all add: leaf_def host_defs Let_def)

lemma setup_point_lighting_assets:
  "map state (images (setup_point_lighting lib orb page win)) = [Loading, Loading, Loading]"
  "map image (textures (setup_point_lighting lib orb page win)) = [None, None, None]"
  by (simp_all add: setup_point_lighting_def host_defs resize_def Let_def)

lemma setup_sort_transparency_assets:
  "map state (images (setup_sort_transparency lib page win rand)) = [Loading]"
  "map image (textures (setup_sort_transparency lib page win rand)) = [None]"
  by (simp_all add: setup_sort_transparency_def set_page_text_def assets_leaves
      requestAnimationFrame_def Geometry_def Texture_def Image_def resize_def Let_def split: list.split)

lemma setup_instancing_assets:
  "map state (images (setup_instancing lib page win)) = [Loading]"
  "map image (textures (setup_instancing lib page win)) = [None]"
  by (simp_all add: setup_instancing_def set_page_text_def host_defs resize_def loadModel_def Let_def
      split: list.split)

lemma first_of_list: "map f xs = y # ys \<Longrightarrow> 0 < length xs \<and> f (xs ! 0) = y"
  by (cases xs) simp_all

lemma setup_point_lighting_first:
  "0 < length (images (setup_point_lighting lib orb page win))
   \<and> 0 < length (textures (setup_point_lighting lib orb page win))
   \<and> state (images (setup_point_lighting lib orb page win) ! 0) = Loading
   \<and> image (textures (setup_point_lighting lib orb page win) ! 0) = None
   \<and> raf_pending (setup_point_lighting lib orb page win) = 1"
  using first_of_list [OF setup_point_lighting_assets(1), of lib orb page win]
    first_of_list [OF setup_point_lighting_assets(2), of lib orb page win]
    raf_setup_point_lighting [of lib orb page win]
  by blast

lemma setup_sort_transparency_first:
  "0 < length (images (setup_sort_transparency lib page win rand))
   \<and> 0 < length (textures (setup_sort_transparency lib page win rand))
   \<and> state (images (setup_sort_transparency lib page win rand) ! 0) = Loading
   \<and> image (textures (setup_sort_transparency lib page win rand) ! 0) = None
   \<and> raf_pending (setup_sort_transparency lib page win rand) = 1"
  using first_of_list [OF setup_sort_transparency_assets(1), of lib page win rand]
    first_of_list [OF setup_sort_transparency_assets(2), of lib page win rand]
    raf_setup_sort_transparency [of lib page win rand]
  by blast

lemma setup_instancing_first:
  "0 < length (images (setup_instancing lib page win))
   \<and> 0 < length (textures (setup_instancing lib page win))
   \<and> state (images (setup_instancing lib page win) ! 0) = Loading
   \<and> image (textures (setup_instancing lib page win) ! 0) = None
   \<and> raf_pending (setup_instancing lib page win) = 1"
  using first_of_list [OF setup_instancing_assets(1), of lib page win]
    first_of_list [OF setup_instancing_assets(2), of lib page win]
    raf_setup_instancing [of lib page win]
  by blast

theorem failed_load_leaves_element_absent_witness:
  "(let s1 = setup_point_lighting example_library example_orbit example_page example_window;
        s3 = setup_sort_transparency example_library example_page example_window (\<lambda>k. 1 / 2);
        s4 = setup_instancing example_library example_page example_window;
        es = [AnimationFrame 16, ImageLoad 0, FetchRejected, FetchResolved example_model (\<lambda>k. 1 / 2),
              AnimationFrame 33 :: unit event]
    in (0 < length (images s1) \<and> 0 < length (textures s1) \<and> state (images s1 ! 0) = Loading
          \<and> image (textures s1 ! 0) = None \<and> raf_pending s1 = 1)
       \<and> image (textures (run (step_point_lighting example_orbit) es
            (step_point_lighting example_orbit (ImageError 0) s1)) ! 0) = None
       \<and> (0 < length (images s3) \<and> 0 < length (textures s3) \<and> state (images s3 ! 0) = Loading
          \<and> image (textures s3 ! 0) = None \<and> raf_pending s3 = 1)
       \<and> image (textures (run step_sort_transparency es
            (step_sort_transparency (ImageError 0 :: unit event) s3)) ! 0) = None
       \<and> (0 < length (images s4) \<and> 0 < length (textures s4) \<and> state (images s4 ! 0) = Loading
          \<and> image (textures s4 ! 0) = None \<and> raf_pending s4 = 1)
       \<and> image (textures (run (step_instancing example_library) es
            (step_instancing example_library (ImageError 0 :: unit event) s4)) ! 0) = None
       \<and> (fetch_pending s4 \<and> mesh s4 = None \<and> raf_pending s4 = 1)
       \<and> mesh (run (step_instancing example_library) es
            (step_instancing example_library (FetchRejected :: unit event) s4)) = None)"
proof -
  define s1 where "s1 = setup_point_lighting example_library example_orbit example_page example_window"
  define s3 where "s3 = setup_sort_transparency example_library example_page example_window (\<lambda>k. 1 / 2)"
  define s4 where "s4 = setup_instancing example_library example_page example_window"
  define es where "es = [AnimationFrame 16, ImageLoad 0, FetchRejected,
    FetchResolved example_model (\<lambda>k. 1 / 2), AnimationFrame 33 :: unit event]"
  have h1: "0 < length (images s1) \<and> 0 < length (textures s1) \<and> state (images s1 ! 0) = Loading
      \<and> image (textures s1 ! 0) = None \<and> raf_pending s1 = 1"
    unfolding s1_def by (rule setup_point_lighting_first)
  have h3: "0 < length (images s3) \<and> 0 < length (textures s3) \<and> state (images s3 ! 0) = Loading
      \<and> image (textures s3 ! 0) = None \<and> raf_pending s3 = 1"
    unfolding s3_def by (rule setup_sort_transparency_first)
  have h4: "0 < length (images s4) \<and> 0 < length (textures s4) \<and> state (images s4 ! 0) = Loading
      \<and> image (textures s4 ! 0) = None \<and> raf_pending s4 = 1"
    unfolding s4_def by (rule setup_instancing_first)
  have h5: "fetch_pending s4 \<and> mesh s4 = None \<and> raf_pending s4 = 1"
    unfolding s4_def by (simp add: setup_instancing_fields raf_setup_instancing)
  note t = failed_load_leaves_element_absent [where k = 0 and ?s1.0 = s1 and orb = example_orbit
      and ?es1.0 = es and ?s3.0 = s3 and ?es3.0 = es and ?s4.0 = s4 and lib = example_library
      and ?es4.0 = es and ?s5.0 = s4 and ?es5.0 = es and t = 50, unfolded Let_def]
  show ?thesis
    unfolding Let_def s1_def [symmetric] s3_def [symmetric] s4_def [symmetric] es_def [symmetric]
    using h1 h3 h4 h5 t by blast
qed

section \<open>Frames and render requests\<close>

lemma rendered_window_resize: "rendered (window_resize w h s) = rendered s"
  by (simp add: window_resize_def resize_def Let_def)

lemma rendered_image_load: "rendered (image_load k s) = rendered s"
  by (simp add: image_load_def img_onload_def)

lemma rendered_image_error: "rendered (image_error k s) = rendered s"
  by (simp add: image_error_def)

lemma rendered_step_point_lighting:
  "raf_pending s = 1 \<Longrightarrow>
   length (rendered (step_point_lighting orb e s)) = length (rendered s) + (if is_frame e then 1 else 0)"
  by (cases e)
    (simp_all add: animation_frame_one rendered_update_point_lighting rendered_window_resize
      rendered_image_load rendered_image_error mousemove_def Let_def)

lemma rendered_step_indexed:
  "raf_pending s = 1 \<Longrightarrow>
   length (rendered (step_indexed e s)) = length (rendered s) + (if is_frame e then 1 else 0)"
  by (cases e) (simp_all add: animation_frame_one rendered_update_indexed rendered_window_resize)

lemma rendered_step_sort_transparency:
  "raf_pending s = 1 \<Longrightarrow>
   length (rendered (step_sort_transparency e s)) = length (rendered s) + (if is_frame e then 1 else 0)"
  by (cases e)
    (simp_all add: animation_frame_one rendered_update_sort_transparency rendered_window_resize
      rendered_image_load rendered_image_error)

lemma rendered_step_instancing:
  "raf_pending s = 1 \<Longrightarrow>
   length (rendered (step_instancing lib e s)) = length (rendered s) + (if is_frame e then 1 else 0)"
  by (cases e)
    (simp_all add: animation_frame_one rendered_update_instancing rendered_window_resize
      rendered_image_load rendered_image_error loadModel_continue_creates)

lemma rendered_count:
  assumes "raf_pending s0 = 1" and "rendered s0 = []"
    and "\<And>e s. raf_pending s = 1 \<Longrightarrow> raf_pending (step e s) = 1"
    and "\<And>e s. raf_pending s = 1 \<Longrightarrow>
           length (rendered (step e s)) = length (rendered s) + (if is_frame e then 1 else 0)"
  shows "length (rendered (run step es s0)) = length (filter is_frame es)"
proof -
  have "raf_pending (run step es s0) = 1
      \<and> length (rendered (run step es s0)) = length (filter is_frame es)"
  proof (induction es rule: rev_induct)
    case Nil
    then show ?case by (simp add: run_Nil assms(1,2))
  next
    case (snoc e es)
    then show ?case by (simp add: run_snoc assms(3,4))
  qed
  then show ?thesis ..
qed

lemma rendered_set_page_text: "rendered (set_page_text a b s) = rendered s"
  by (simp add: set_page_text_def split: list.split)

lemma rendered_leaves: "rendered (foldl (\<lambda>s i. leaf lib rand i s) s is) = rendered s"
  by (induction "is" arbitrary: s) (simp_all add: leaf_def host_defs Let_def)

lemma rendered_setup:
  "rendered (setup_point_lighting lib orb page win) = []"
  "rendered (setup_indexed lib page win) = []"
  "rendered (setup_sort_transparency lib page win rand) = []"
  "rendered (setup_instancing lib page win) = []"
  by (simp_all add: setup_point_lighting_def setup_indexed_def setup_sort_transparency_def
      setup_instancing_def rendered_set_page_text rendered_leaves host_defs resize_def loadModel_def
      Let_def)

text \<open>
  C2. In each of the four samples one invocation of the frame callback adds exactly one
  render request to those issued before, and the request is for the scene and the camera
  as the callback leaves them. So after the callback has been invoked N times, with any
  timestamps \<open>ts\<close>, exactly N requests have been added. And from the end of the setup
  on, whatever events the browser delivers, the requests issued are as many as the
  animation frames among the events: no frame goes without its request and none gets two.
\<close>

theorem one_render_per_frame_callback:
  "rendered (update_point_lighting orb t s1) =
     rendered s1 @ [(scene (update_point_lighting orb t s1), camera (update_point_lighting orb t s1))]
   \<and> rendered (update_indexed t s2) =
     rendered s2 @ [(scene (update_indexed t s2), camera (update_indexed t s2))]
   \<and> rendered (update_sort_transparency t s3) =
     rendered s3 @ [(scene (update_sort_transparency t s3), camera (update_sort_transparency t s3))]
   \<and> rendered (update_instancing t s4) =
     rendered s4 @ [(scene (update_instancing t s4), camera (update_instancing t s4))]
   \<and> length (rendered (run (update_point_lighting orb) ts s1)) = length (rendered s1) + length ts
   \<and> length (rendered (run update_indexed ts s2)) = length (rendered s2) + length ts
   \<and> length (rendered (run update_sort_transparency ts s3)) = length (rendered s3) + length ts
   \<and> length (rendered (run update_instancing ts s4)) = length (rendered s4) + length ts
   \<and> length (rendered (run (step_point_lighting orb) es1 (setup_point_lighting lib orb page win))) =
     length (filter is_frame es1)
   \<and> length (rendered (run step_indexed es2 (setup_indexed lib page win))) =
     length (filter is_frame es2)
   \<and> length (rendered (run step_sort_transparency es3 (setup_sort_transparency lib page win rand))) =
     length (filter is_frame es3)
   \<and> length (rendered (run (step_instancing lib) es4 (setup_instancing lib page win))) =
     length (filter is_frame es4)"
proof -
  have "length (rendered (run (update_point_lighting orb) ts s1)) = length (rendered s1) + length ts"
    by (rule length_rendered_run) (simp add: rendered_update_point_lighting)
  moreover have "length (rendered (run update_indexed ts s2)) = length (rendered s2) + length ts"
    by (rule length_rendered_run) (simp add: rendered_update_indexed)
  moreover have "length (rendered (run update_sort_transparency ts s3)) = length (rendered s3) + length ts"
    by (rule length_rendered_run) (simp add: rendered_update_sort_transparency)
  moreover have "length (rendered (run update_instancing ts s4)) = length (rendered s4) + length ts"
    by (rule length_rendered_run) (simp add: rendered_update_instancing)
  moreover have
    "length (rendered (run (step_point_lighting orb) es1 (setup_point_lighting lib orb page win))) =
       length (filter is_frame es1)"
    by (rule rendered_count)
      (simp_all add: raf_setup_point_lighting rendered_setup raf_step_point_lighting
        rendered_step_point_lighting)
  moreover have "length (rendered (run step_indexed es2 (setup_indexed lib page win))) =
      length (filter is_frame es2)"
    by (rule rendered_count)
      (simp_all add: raf_setup_indexed rendered_setup raf_step_indexed rendered_step_indexed)
  moreover have
    "length (rendered (run step_sort_transparency es3 (setup_sort_transparency lib page win rand))) =
       length (filter is_frame es3)"
    by (rule rendered_count)
      (simp_all add: raf_setup_sort_transparency rendered_setup raf_step_sort_transparency
        rendered_step_sort_transparency)
  moreover have "length (rendered (run (step_instancing lib) es4 (setup_instancing lib page win))) =
      length (filter is_frame es4)"
    by (rule rendered_count)
      (simp_all add: raf_setup_instancing rendered_setup raf_step_instancing rendered_step_instancing)
  ultimately show ?thesis
    using rendered_update_point_lighting [of orb t s1] rendered_update_indexed [of t s2]
      rendered_update_sort_transparency [of t s3] rendered_update_instancing [of t s4]
    by blast
qed

section \<open>The resize handler in the four samples\<close>

lemma renderer_animation_frame:
  assumes "\<And>s. renderer (update t s) = renderer s"
  shows "renderer (animation_frame update t s) = renderer s"
  by (rule animation_frame_invariant [where P = "\<lambda>s'. renderer s' = renderer s"])
    (simp_all add: assms)

lemma renderer_update_sort_transparency: "renderer (update_sort_transparency t s) = renderer s"
  by (simp add: update_sort_transparency_def foldl_modify render_def requestAnimationFrame_def Let_def)

lemma renderer_update:
  "renderer (update_point_lighting orb t s1) = renderer s1"
  "renderer (update_indexed t s2) = renderer s2"
  "renderer (update_instancing t s4) = renderer s4"
  by (simp_all add: update_point_lighting_def update_indexed_def update_instancing_def host_defs
      Let_def split: prod.split option.split)

lemma dpr_window_resize: "dpr (renderer (window_resize w h s)) = dpr (renderer s)"
  by (simp add: window_resize_def resize_def setSize_def Let_def)

lemma renderer_image_load: "renderer (image_load k s) = renderer s"
  by (simp add: image_load_def img_onload_def)

lemma renderer_image_error: "renderer (image_error k s) = renderer s"
  by (simp add: image_error_def)

lemma renderer_loadModel_continue: "renderer (loadModel_continue lib d rand s) = renderer s"
  by (simp add: loadModel_continue_def host_defs Let_def split: option.split prod.split)

lemma dpr_step_point_lighting: "dpr (renderer (step_point_lighting orb e s)) = dpr (renderer s)"
  by (cases e)
    (simp_all add: renderer_animation_frame renderer_update dpr_window_resize renderer_image_load
      renderer_image_error mousemove_def Let_def)

lemma dpr_step_indexed: "dpr (renderer (step_indexed e s)) = dpr (renderer s)"
  by (cases e) (simp_all add: renderer_animation_frame renderer_update dpr_window_resize)

lemma dpr_step_sort_transparency: "dpr (renderer (step_sort_transparency e s)) = dpr (renderer s)"
  by (cases e)
    (simp_all add: renderer_animation_frame renderer_update_sort_transparency dpr_window_resize
      renderer_image_load renderer_image_error)

lemma dpr_step_instancing: "dpr (renderer (step_instancing lib e s)) = dpr (renderer s)"
  by (cases e)
    (simp_all add: renderer_animation_frame renderer_update dpr_window_resize renderer_image_load
      renderer_image_error renderer_loadModel_continue)

lemma renderer_set_page_text: "renderer (set_page_text a b s) = renderer s"
  by (simp add: set_page_text_def split: list.split)

lemma renderer_leaves: "renderer (foldl (\<lambda>s i. leaf lib rand i s) s is) = renderer s"
  by (induction "is" arbitrary: s) (simp_all add: leaf_def host_defs Let_def)

lemma dpr_setup:
  "dpr (renderer (setup_point_lighting lib orb page win)) = default_dpr lib"
  "dpr (renderer (setup_indexed lib page win)) = default_dpr lib"
  "dpr (renderer (setup_sort_transparency lib page win rand)) = 2"
  "dpr (renderer (setup_instancing lib page win)) = 2"
  by (simp_all add: setup_point_lighting_def setup_indexed_def setup_sort_transparency_def
      setup_instancing_def renderer_set_page_text renderer_leaves host_defs resize_def setSize_def
      Renderer_def loadModel_def Let_def)

lemma dpr_run:
  "dpr (renderer (run (step_point_lighting orb) es1 (setup_point_lighting lib orb page win))) = default_dpr lib"
  "dpr (renderer (run step_indexed es2 (setup_indexed lib page win))) = default_dpr lib"
  "dpr (renderer (run step_sort_transparency es3 (setup_sort_transparency lib page win rand))) = 2"
  "dpr (renderer (run (step_instancing lib) es4 (setup_instancing lib page win))) = 2"
proof -
  show "dpr (renderer (run (step_point_lighting orb) es1 (setup_point_lighting lib orb page win))) =
      default_dpr lib"
    by (rule run_invariant [where P = "\<lambda>s. dpr (renderer s) = default_dpr lib"])
      (simp_all add: dpr_setup dpr_step_point_lighting)
  show "dpr (renderer (run step_indexed es2 (setup_indexed lib page win))) = default_dpr lib"
    by (rule run_invariant [where P = "\<lambda>s. dpr (renderer s) = default_dpr lib"])
      (simp_all add: dpr_setup dpr_step_indexed)
  show "dpr (renderer (run step_sort_transparency es3 (setup_sort_transparency lib page win rand))) = 2"
    by (rule run_invariant [where P = "\<lambda>s. dpr (renderer s) = 2"])
      (simp_all add: dpr_setup dpr_step_sort_transparency)
  show "dpr (renderer (run (step_instancing lib) es4 (setup_instancing lib page win))) = 2"
    by (rule run_invariant [where P = "\<lambda>s. dpr (renderer s) = 2"])
      (simp_all add: dpr_setup dpr_step_instancing)
qed

lemma window_resize_result:
  "aspect (camera (window_resize w h s)) =
     Some (js_div (width (canvas (renderer (window_resize w h s))))
                  (height (canvas (renderer (window_resize w h s)))))"
  "canvas (renderer (window_resize w h s)) = \<lparr>width = w * dpr (renderer s), height = h * dpr (renderer s)\<rparr>"
  by (simp_all add: window_resize_def resize_def Let_def setSize_def perspective_def)

text \<open>
  C1. After the resize handler has run for a change of the viewport to any width and
  height, the aspect ratio that was passed to \<open>perspective\<close> is the quotient of the
  drawing-buffer width by the drawing-buffer height, as they are after the handler; the
  buffer has the viewport's size times the renderer's device-pixel ratio. In each of the
  four samples this holds after a resize in any state the sample can be in, after any
  events since its setup: with the ratio 2 in the two samples that construct the renderer
  with it, the buffer is twice the viewport each way and the aspect ratio passed is the
  quotient of these two sizes; in the two other samples the same with the library's ratio.
\<close>

theorem resize_aspect_is_buffer_quotient:
  "aspect (camera (window_resize w h s)) =
     Some (js_div (width (canvas (renderer (window_resize w h s))))
                  (height (canvas (renderer (window_resize w h s)))))
   \<and> canvas (renderer (window_resize w h s)) = \<lparr>width = w * dpr (renderer s), height = h * dpr (renderer s)\<rparr>
   \<and> (let s' = step_point_lighting orb (Resize w h)
                  (run (step_point_lighting orb) es1 (setup_point_lighting lib orb page win))
      in canvas (renderer s') = \<lparr>width = w * default_dpr lib, height = h * default_dpr lib\<rparr>
         \<and> aspect (camera s') = Some (js_div (w * default_dpr lib) (h * default_dpr lib)))
   \<and> (let s' = step_indexed (Resize w h) (run step_indexed es2 (setup_indexed lib page win))
      in canvas (renderer s') = \<lparr>width = w * default_dpr lib, height = h * default_dpr lib\<rparr>
         \<and> aspect (camera s') = Some (js_div (w * default_dpr lib) (h * default_dpr lib)))
   \<and> (let s' = step_sort_transparency (Resize w h)
                  (run step_sort_transparency es3 (setup_sort_transparency lib page win rand))
      in canvas (renderer s') = \<lparr>width = w * 2, height = h * 2\<rparr>
         \<and> aspect (camera s') = Some (js_div (w * 2) (h * 2)))
   \<and> (let s' = step_instancing lib (Resize w h) (run (step_instancing lib) es4 (setup_instancing lib page win))
      in canvas (renderer s') = \<lparr>width = w * 2, height = h * 2\<rparr>
         \<and> aspect (camera s') = Some (js_div (w * 2) (h * 2)))"
  by (simp add: Let_def window_resize_result dpr_run)

text \<open>
  C4. Running the resize handler a second time for the same window size changes nothing:
  the whole state, with the drawing-buffer size and the camera's projection, is as after
  the first run, in each of the four samples. The handler has no failing path: it is
  defined for every window size, and where the height is zero the division yields
  \<open>Infinity\<close> or \<open>NaN\<close> and the handler completes as for any other size.
\<close>

theorem resize_twice_is_resize_once:
  "resize (resize s) = resize s
   \<and> window_resize w h (window_resize w h s) = window_resize w h s
   \<and> step_point_lighting orb (Resize w h) (step_point_lighting orb (Resize w h) s1) =
       step_point_lighting orb (Resize w h) s1
   \<and> step_indexed (Resize w h) (step_indexed (Resize w h) s2) = step_indexed (Resize w h) s2
   \<and> step_sort_transparency (Resize w h) (step_sort_transparency (Resize w h) s3) =
       step_sort_transparency (Resize w h) s3
   \<and> step_instancing lib (Resize w h) (step_instancing lib (Resize w h) s4) =
       step_instancing lib (Resize w h) s4
   \<and> aspect (camera (window_resize w 0 s)) = Some (if w * dpr (renderer s) = 0 then NaN else Infinity)"
  by (simp add: window_resize_def resize_def Let_def setSize_def perspective_def js_div_def)

end
